theory Spec2Isabelle
  imports Main
begin

section \<open>Strings and errors of the host language\<close>

text \<open>
  Source strings are modelled as \<^typ>\<open>string\<close>, a text being the list of its UTF-8
  bytes: on ASCII text a byte is a character of the source string, and lengths and
  indices are those of the code.
\<close>

text \<open>
  The code points \<^verbatim>\<open>String.prototype.trim\<close> strips, each as its UTF-8 bytes: the white
  space TAB, VT, FF, SP, U+00A0, U+FEFF and the space separators U+1680, U+2000 to
  U+200A, U+202F, U+205F, U+3000, and the line terminators LF, CR, U+2028, U+2029.
\<close>

definition whiteSpaceCodes :: "string list" where
  "whiteSpaceCodes =
     [[CHR 0x09], [CHR 0x0A], [CHR 0x0B], [CHR 0x0C], [CHR 0x0D], [CHR 0x20],
      [CHR 0xC2, CHR 0xA0],
      [CHR 0xE1, CHR 0x9A, CHR 0x80],
      [CHR 0xE2, CHR 0x80, CHR 0x80], [CHR 0xE2, CHR 0x80, CHR 0x81],
      [CHR 0xE2, CHR 0x80, CHR 0x82], [CHR 0xE2, CHR 0x80, CHR 0x83],
      [CHR 0xE2, CHR 0x80, CHR 0x84], [CHR 0xE2, CHR 0x80, CHR 0x85],
      [CHR 0xE2, CHR 0x80, CHR 0x86], [CHR 0xE2, CHR 0x80, CHR 0x87],
      [CHR 0xE2, CHR 0x80, CHR 0x88], [CHR 0xE2, CHR 0x80, CHR 0x89],
      [CHR 0xE2, CHR 0x80, CHR 0x8A],
      [CHR 0xE2, CHR 0x80, CHR 0xA8], [CHR 0xE2, CHR 0x80, CHR 0xA9],
      [CHR 0xE2, CHR 0x80, CHR 0xAF],
      [CHR 0xE2, CHR 0x81, CHR 0x9F],
      [CHR 0xE3, CHR 0x80, CHR 0x80],
      [CHR 0xEF, CHR 0xBB, CHR 0xBF]]"

text \<open>Removes, from the front of a text, every code of the list for as long as one is
  there.\<close>

function stripLeading :: "string list \<Rightarrow> string \<Rightarrow> string" where
  "stripLeading codes s =
     (case List.find (\<lambda>w. w \<noteq> [] \<and> take (length w) s = w) codes of
        None \<Rightarrow> s
      | Some w \<Rightarrow> stripLeading codes (drop (length w) s))"
  by pat_completeness auto
termination
proof (relation "measure (\<lambda>(codes, s). length s)")
  show "wf (measure (\<lambda>(codes, s). length s))" by simp
next
  fix codes :: "string list" and s w :: string
  assume "List.find (\<lambda>w. w \<noteq> [] \<and> take (length w) s = w) codes = Some w"
  then have "w \<noteq> []" and "take (length w) s = w"
    by (auto simp: find_Some_iff)
  then have "s \<noteq> []" by auto
  then show "((codes, drop (length w) s), (codes, s)) \<in> measure (\<lambda>(codes, s). length s)"
    using \<open>w \<noteq> []\<close> by simp
qed

declare stripLeading.simps [simp del]

text \<open>\<^verbatim>\<open>String.prototype.trim\<close>: the white space is stripped from the front and, read
  backwards, from the end.\<close>

definition trim :: "string \<Rightarrow> string" where
  "trim s = rev (stripLeading (map rev whiteSpaceCodes) (rev (stripLeading whiteSpaceCodes s)))"

text \<open>\<^verbatim>\<open>Array.prototype.join\<close> on an array of strings.\<close>

fun joinWith :: "string \<Rightarrow> string list \<Rightarrow> string" where
  "joinWith sep [] = []"
| "joinWith sep [p] = p"
| "joinWith sep (p # q # ps) = p @ sep @ joinWith sep (q # ps)"

text \<open>
  A thrown \<^verbatim>\<open>Error\<close> is a value: \<open>Error m\<close> is \<^verbatim>\<open>new Error(m)\<close>, and
  \<open>Errno c m\<close> is a runtime exception that carries the \<^verbatim>\<open>code\<close> property \<open>c\<close>
  (\<^verbatim>\<open>NodeJS.ErrnoException\<close>). A function that may throw returns \<open>error + 'a\<close>.
\<close>

datatype error = Error string | Errno string string

section \<open>The response extractor (codex.ts)\<close>

subsection \<open>Parsed JSON documents\<close>

text \<open>
  The value \<^verbatim>\<open>JSON.parse\<close> returns. An object is the list of its own properties,
  each key once; a property read is \<open>map_of\<close>. A value of type \<^verbatim>\<open>unknown\<close> that may be
  \<^verbatim>\<open>undefined\<close> is a \<open>json option\<close>, \<open>None\<close> being \<^verbatim>\<open>undefined\<close>.
  \<open>JNum m e\<close> is the number \<open>m\<close> times ten to the power \<open>e\<close>; the code never
  inspects a number.
\<close>

datatype json =
    JNull
  | JBool bool
  | JNum int int
  | JStr string
  | JArr "json list"
  | JObj "(string \<times> json) list"

text \<open>\<^verbatim>\<open>(v as Record<string, unknown>)[k]\<close> for the keys the code reads (none of them
  is a property of an array or of \<^verbatim>\<open>Object.prototype\<close>).\<close>

fun getProp :: "json \<Rightarrow> string \<Rightarrow> json option" where
  "getProp (JObj kvs) k = map_of kvs k"
| "getProp _ k = None"

text \<open>\<^verbatim>\<open>k in v\<close>, for a value that passed \<^verbatim>\<open>v && typeof v === "object"\<close>.\<close>

fun hasProp :: "string \<Rightarrow> json \<Rightarrow> bool" where
  "hasProp k (JObj kvs) = (map_of kvs k \<noteq> None)"
| "hasProp k _ = False"

text \<open>\<^verbatim>\<open>v && typeof v === "object"\<close>: objects and arrays; \<^verbatim>\<open>null\<close> is falsy.\<close>

fun isObjectLike :: "json option \<Rightarrow> bool" where
  "isObjectLike (Some (JObj kvs)) = True"
| "isObjectLike (Some (JArr vs)) = True"
| "isObjectLike _ = False"

text \<open>\<^verbatim>\<open>typeof text === "string" ? text : undefined\<close>\<close>

fun stringOrUndefined :: "json option \<Rightarrow> string option" where
  "stringOrUndefined (Some (JStr s)) = Some s"
| "stringOrUndefined _ = None"

subsection \<open>flattenContent\<close>

text \<open>The callback of \<^verbatim>\<open>value.map\<close> in \<^verbatim>\<open>flattenContent\<close>.\<close>

fun segmentText :: "json \<Rightarrow> string option" where
  "segmentText (JStr s) = Some s"
| "segmentText segment =
     (if isObjectLike (Some segment) \<and> hasProp ''text'' segment
      then stringOrUndefined (getProp segment ''text'')
      else None)"

text \<open>The predicate of \<^verbatim>\<open>.filter\<close>: a string of positive length.\<close>

fun keptPart :: "string option \<Rightarrow> bool" where
  "keptPart (Some part) = (0 < length part)"
| "keptPart None = False"

definition flattenParts :: "json list \<Rightarrow> string list" where
  "flattenParts segs = map the (filter keptPart (map segmentText segs))"

fun flattenContent :: "json option \<Rightarrow> string option" where
  "flattenContent (Some (JStr s)) = Some s"
| "flattenContent (Some (JArr segs)) =
     (let parts = flattenParts segs
      in if 0 < length parts then Some (joinWith '' \<newline>'' parts) else None)"
| "flattenContent value =
     (if isObjectLike value \<and> hasProp ''text'' (the value)
      then stringOrUndefined (getProp (the value) ''text'')
      else None)"

subsection \<open>extractAssistantText\<close>

definition missingAssistantMessage :: error where
  "missingAssistantMessage = Error ''Codex CLI JSON response did not include an assistant message''"

text \<open>\<^verbatim>\<open>if (flattened)\<close>: a string is truthy when it is not empty.\<close>

fun truthyText :: "string option \<Rightarrow> bool" where
  "truthyText (Some t) = (t \<noteq> [])"
| "truthyText None = False"

text \<open>
  The \<^verbatim>\<open>for\<close> loop over \<^verbatim>\<open>messages\<close>, index \<^verbatim>\<open>length - 1\<close> down to \<^verbatim>\<open>0\<close>:
  the argument is the list of entries still to visit, the next one first (the caller
  passes \<open>rev messages\<close>). \<open>Some t\<close> is \<^verbatim>\<open>return t\<close>; \<open>None\<close> is the loop
  running to its end.
\<close>

fun scanMessages :: "json list \<Rightarrow> string option" where
  "scanMessages [] = None"
| "scanMessages (entry # earlier) =
     (if \<not> isObjectLike (Some entry) then scanMessages earlier
      else if getProp entry ''role'' \<noteq> Some (JStr ''assistant'') then scanMessages earlier
      else let flattened = flattenContent (getProp entry ''content'')
           in if truthyText flattened then flattened else scanMessages earlier)"

text \<open>\<^verbatim>\<open>Array.isArray(record.messages) ? record.messages : undefined\<close>\<close>

fun messagesOf :: "json \<Rightarrow> json list option" where
  "messagesOf record = (case getProp record ''messages'' of Some (JArr ms) \<Rightarrow> Some ms | _ \<Rightarrow> None)"

definition responseContent :: "json \<Rightarrow> string option" where
  "responseContent record =
     (let response = getProp record ''response''
      in if isObjectLike response then flattenContent (getProp (the response) ''content'') else None)"

definition extractAssistantText :: "json \<Rightarrow> error + string" where
  "extractAssistantText parsed =
     (if \<not> isObjectLike (Some parsed) then Inl missingAssistantMessage
      else
        let fromMessages = (case messagesOf parsed of
                              Some messages \<Rightarrow> scanMessages (rev messages)
                            | None \<Rightarrow> None)
        in if fromMessages \<noteq> None then Inr (the fromMessages)
           else let flattened = responseContent parsed
                in if truthyText flattened then Inr (the flattened)
                   else let flattenedOutput = flattenContent (getProp parsed ''output'')
                        in if truthyText flattenedOutput then Inr (the flattenedOutput)
                           else Inl missingAssistantMessage)"


subsection \<open>parseCodexJson\<close>

text \<open>
  \<^verbatim>\<open>JSON.parse\<close> belongs to the runtime: the functions below take it as the parameter
  \<open>JSON_parse\<close>, \<open>None\<close> being a thrown \<^verbatim>\<open>SyntaxError\<close>.
\<close>

text \<open>\<^verbatim>\<open>s.lastIndexOf(c)\<close>; \<open>None\<close> is \<^verbatim>\<open>-1\<close>.\<close>

definition lastIndexOf :: "char \<Rightarrow> string \<Rightarrow> nat option" where
  "lastIndexOf c s =
     (let hits = filter (\<lambda>i. s ! i = c) [0..<length s]
      in if hits = [] then None else Some (last hits))"

text \<open>The three characters the source file holds after the preview of a long output
  (U+00E2, U+20AC, U+00A6), as their UTF-8 bytes.\<close>

definition previewSuffix :: string where
  "previewSuffix = [CHR 0xC3, CHR 0xA2, CHR 0xE2, CHR 0x82, CHR 0xAC, CHR 0xC2, CHR 0xA6]"

definition noOutputError :: error where
  "noOutputError = Error ''Codex CLI produced no output in --json mode''"

definition invalidJsonError :: "string \<Rightarrow> error" where
  "invalidJsonError trimmed =
     (let preview = take 200 trimmed
      in Error (''Codex CLI emitted invalid JSON: '' @ preview @
                (if 200 < length trimmed then previewSuffix else [])))"

definition parseCodexJson :: "(string \<Rightarrow> json option) \<Rightarrow> string \<Rightarrow> error + json" where
  "parseCodexJson JSON_parse output =
     (let trimmed = trim output
      in if length trimmed = 0 then Inl noOutputError
         else case JSON_parse trimmed of
                Some v \<Rightarrow> Inr v
              | None \<Rightarrow>
                  (let lastBrace = lastIndexOf (CHR ''{'') trimmed;
                       retried = (case lastBrace of
                                    Some i \<Rightarrow> JSON_parse (drop i trimmed)
                                  | None \<Rightarrow> None)
                   in case retried of
                        Some v \<Rightarrow> Inr v
                      | None \<Rightarrow> Inl (invalidJsonError trimmed)))"

section \<open>Attachments and the prompt document (preread.ts)\<close>

text \<open>
  The path functions are the runtime's (\<^verbatim>\<open>node:path\<close>; they differ between
  platforms) and \<^verbatim>\<open>isGuidelineFile\<close> lives in \<^verbatim>\<open>yaml-parser.ts\<close>, which is not
  among the sources: the model takes them together as one parameter, the platform.
  \<open>resolve\<close> is \<^verbatim>\<open>path.resolve\<close> of one argument (the working directory is the
  platform's), \<open>join\<close> is \<^verbatim>\<open>path.join\<close> of two.
\<close>

record platform =
  resolve :: "string \<Rightarrow> string"
  basename :: "string \<Rightarrow> string"
  join :: "string \<Rightarrow> string \<Rightarrow> string"
  sep :: char
  isAbsolute :: "string \<Rightarrow> bool"
  isGuidelineFile :: "string \<Rightarrow> string list option \<Rightarrow> bool"

text \<open>
  \<^verbatim>\<open>ProviderRequest\<close>: \<open>signalAborted\<close> is \<^verbatim>\<open>request.signal?.aborted\<close>,
  \<open>None\<close> when the request has no signal.
\<close>

record providerRequest =
  prompt :: string
  attachments :: "string list option"
  guideline_patterns :: "string list option"
  signalAborted :: "bool option"

record promptDocumentOptions =
  guidelinePatterns :: "string list option"
  guidelineOverrides :: "string set option"

text \<open>\<^verbatim>\<open>if (!unique.has(k)) unique.set(k, k)\<close> on a \<^verbatim>\<open>Map\<close>, whose values are read
  back in insertion order.\<close>

definition setIfAbsent :: "string list \<Rightarrow> string \<Rightarrow> string list" where
  "setIfAbsent unique k = (if k \<in> set unique then unique else unique @ [k])"

text \<open>\<^verbatim>\<open>!attachments || attachments.length === 0\<close>\<close>

fun noAttachments :: "string list option \<Rightarrow> bool" where
  "noAttachments None = True"
| "noAttachments (Some as) = (length as = 0)"

definition normalizeAttachments :: "'a platform_scheme \<Rightarrow> string list option \<Rightarrow> string list option" where
  "normalizeAttachments P atts =
     (if noAttachments atts then None
      else Some (foldl (\<lambda>deduped attachment. setIfAbsent deduped (resolve P attachment)) [] (the atts)))"

text \<open>\<^verbatim>\<open>overrides?.has(p)\<close>\<close>

fun overridesHas :: "string set option \<Rightarrow> string \<Rightarrow> bool" where
  "overridesHas None p = False"
| "overridesHas (Some ov) p = (p \<in> ov)"

text \<open>\<^verbatim>\<open>absolutePath.split(path.sep).join("/")\<close>\<close>

definition forwardSlashes :: "'a platform_scheme \<Rightarrow> string \<Rightarrow> string" where
  "forwardSlashes P p = map (\<lambda>c. if c = sep P then CHR ''/'' else c) p"

text \<open>One iteration of the loop of \<^verbatim>\<open>collectGuidelineFiles\<close>.\<close>

definition guidelineStep ::
  "'a platform_scheme \<Rightarrow> string list option \<Rightarrow> string set option \<Rightarrow> string list \<Rightarrow> string \<Rightarrow> string list" where
  "guidelineStep P pats overrides unique attachment =
     (let absolutePath = resolve P attachment
      in if overridesHas overrides absolutePath then setIfAbsent unique absolutePath
         else let normalized = forwardSlashes P absolutePath
              in if isGuidelineFile P normalized pats then setIfAbsent unique absolutePath
                 else unique)"

definition collectGuidelineFiles ::
  "'a platform_scheme \<Rightarrow> string list option \<Rightarrow> string list option \<Rightarrow> string set option \<Rightarrow> string list" where
  "collectGuidelineFiles P atts pats overrides =
     (if noAttachments atts then []
      else foldl (guidelineStep P pats overrides) [] (the atts))"

definition collectAttachmentFiles :: "'a platform_scheme \<Rightarrow> string list option \<Rightarrow> string list" where
  "collectAttachmentFiles P atts =
     (if noAttachments atts then []
      else foldl (\<lambda>unique attachment. setIfAbsent unique (resolve P attachment)) [] (the atts))"

text \<open>\<^verbatim>\<open>/^[a-zA-Z]:\//.test(p)\<close>\<close>

definition isAsciiLetter :: "char \<Rightarrow> bool" where
  "isAsciiLetter c =
     (let n = (of_char c :: nat)
      in (of_char CHR ''a'' \<le> n \<and> n \<le> of_char CHR ''z'') \<or>
         (of_char CHR ''A'' \<le> n \<and> n \<le> of_char CHR ''Z''))"

fun hasDrivePrefix :: "string \<Rightarrow> bool" where
  "hasDrivePrefix (d # c # s # rest) = (isAsciiLetter d \<and> c = CHR '':'' \<and> s = CHR ''/'')"
| "hasDrivePrefix _ = False"

definition pathToFileUri :: "'a platform_scheme \<Rightarrow> string \<Rightarrow> string" where
  "pathToFileUri P filePath =
     (let absolutePath = (if isAbsolute P filePath then filePath else resolve P filePath);
          normalizedPath = map (\<lambda>c. if c = CHR 0x5C then CHR ''/'' else c) absolutePath
      in if hasDrivePrefix normalizedPath then ''file:///'' @ normalizedPath
         else ''file://'' @ normalizedPath)"

definition buildList :: "'a platform_scheme \<Rightarrow> string list \<Rightarrow> string list" where
  "buildList P files =
     map (\<lambda>absolutePath.
            let fileName = basename P absolutePath;
                fileUri = pathToFileUri P absolutePath
            in ''* ['' @ fileName @ ''](''  @ fileUri @ '')'') files"

definition buildMandatoryPrereadBlock :: "'a platform_scheme \<Rightarrow> string list \<Rightarrow> string list \<Rightarrow> string" where
  "buildMandatoryPrereadBlock P guidelineFiles attachmentFiles =
     (if length guidelineFiles = 0 \<and> length attachmentFiles = 0 then []
      else
        let sections0 = [];
            sections1 = (if 0 < length guidelineFiles
                         then sections0 @ [''Read all guideline files:\<newline>'' @
                                           joinWith ''\<newline>'' (buildList P guidelineFiles) @ ''.'']
                         else sections0);
            sections2 = (if 0 < length attachmentFiles
                         then sections1 @ [''Read all attachment files:\<newline>'' @
                                           joinWith ''\<newline>'' (buildList P attachmentFiles) @ ''.'']
                         else sections1);
            sections3 = sections2 @
              [''If any file is missing, fail with ERROR: missing-file <filename> and stop.'',
               ''Then apply system_instructions on the user query below.'']
        in joinWith ''\<newline>'' sections3)"

text \<open>
  The two lists \<^verbatim>\<open>buildPromptDocument\<close> hands to \<^verbatim>\<open>buildMandatoryPrereadBlock\<close>:
  \<^verbatim>\<open>guidelineFiles\<close> and \<^verbatim>\<open>nonGuidelineAttachments\<close>.
\<close>

definition prereadLists ::
  "'a platform_scheme \<Rightarrow> 'b providerRequest_scheme \<Rightarrow> string list option \<Rightarrow>
   promptDocumentOptions option \<Rightarrow> string list \<times> string list" where
  "prereadLists P request atts options =
     (let optionPatterns = (case options of Some opts \<Rightarrow> guidelinePatterns opts | None \<Rightarrow> None);
          pats = (case optionPatterns of Some ps \<Rightarrow> Some ps | None \<Rightarrow> guideline_patterns request);
          overrides = (case options of Some opts \<Rightarrow> guidelineOverrides opts | None \<Rightarrow> None);
          guidelineFiles = collectGuidelineFiles P atts pats overrides;
          attachmentFiles = collectAttachmentFiles P atts;
          nonGuidelineAttachments = filter (\<lambda>file. \<not> (file \<in> set guidelineFiles)) attachmentFiles
      in (guidelineFiles, nonGuidelineAttachments))"

definition buildPromptDocument ::
  "'a platform_scheme \<Rightarrow> 'b providerRequest_scheme \<Rightarrow> string list option \<Rightarrow>
   promptDocumentOptions option \<Rightarrow> string" where
  "buildPromptDocument P request atts options =
     (let parts0 = [];
          lists = prereadLists P request atts options;
          prereadBlock = buildMandatoryPrereadBlock P (fst lists) (snd lists);
          parts1 = (if 0 < length prereadBlock then parts0 @ [''\<newline>'', prereadBlock] else parts0);
          parts2 = parts1 @ [''\<newline>[[ ## user_query ## ]]\<newline>'', trim (prompt request)]
      in trim (joinWith ''\<newline>'' parts2))"


section \<open>The process-based provider (codex.ts)\<close>

definition WORKSPACE_PREFIX :: string where "WORKSPACE_PREFIX = ''agentv-codex-''"
definition PROMPT_FILENAME :: string where "PROMPT_FILENAME = ''prompt.md''"
definition FILES_DIR :: string where "FILES_DIR = ''files''"

text \<open>A non-negative number inside a template literal: its decimal digits.\<close>

definition digitChar :: "nat \<Rightarrow> char" where
  "digitChar d = char_of (of_char CHR ''0'' + d)"

function showNat :: "nat \<Rightarrow> string" where
  "showNat n = (if n < 10 then [digitChar n] else showNat (n div 10) @ [digitChar (n mod 10)])"
  by pat_completeness auto
termination
  by (relation "measure id") auto

declare showNat.simps [simp del]

definition showInt :: "int \<Rightarrow> string" where
  "showInt i = (if i < 0 then ''-'' @ showNat (nat (- i)) else showNat (nat i))"

subsection \<open>The workspace: mirrorAttachments\<close>

text \<open>
  What an invocation does to the file system is kept as a list of operations, in the
  order the code awaits them. The runtime's own rejections of these operations (a copy
  or a write that fails) are outside the model; a failure the source tests for or
  catches (\<^verbatim>\<open>access\<close>, \<^verbatim>\<open>exec\<close>, the runner) is a value.
\<close>

datatype fsOp =
    Mkdtemp string
  | MkdirRecursive string
  | CopyFile string string
  | WriteFile string string
  | RmRecursive string

text \<open>The variables of the loop of \<^verbatim>\<open>mirrorAttachments\<close>: \<^verbatim>\<open>mirrored\<close>,
  \<^verbatim>\<open>guidelineMirrors\<close>, \<^verbatim>\<open>nameCounts\<close>, and the copies made so far.\<close>

record mirrorState =
  mirrored :: "string list"
  mirrorsOfGuidelines :: "string set"
  nameCounts :: "string \<rightharpoonup> nat"
  copies :: "fsOp list"

definition mirrorStep ::
  "'a platform_scheme \<Rightarrow> string \<Rightarrow> string set \<Rightarrow> mirrorState \<Rightarrow> string \<Rightarrow> mirrorState" where
  "mirrorStep P filesRoot guidelineOriginals st attachment =
     (let absoluteSource = resolve P attachment;
          baseName = basename P absoluteSource;
          seen = (case nameCounts st baseName of Some n \<Rightarrow> n | None \<Rightarrow> 0);
          finalName = (if seen = 0 then baseName else baseName @ ''.'' @ showNat seen);
          destination = join P filesRoot finalName;
          resolvedDestination = resolve P destination
      in \<lparr> mirrored = mirrored st @ [resolvedDestination],
           mirrorsOfGuidelines =
             (if absoluteSource \<in> guidelineOriginals
              then insert resolvedDestination (mirrorsOfGuidelines st)
              else mirrorsOfGuidelines st),
           nameCounts = (nameCounts st)(baseName \<mapsto> seen + 1),
           copies = copies st @ [CopyFile absoluteSource destination] \<rparr>)"

record mirrorResult =
  mirroredAttachments :: "string list option"
  guidelineMirrors :: "string set"
  mirrorOps :: "fsOp list"

definition mirrorAttachments ::
  "'a platform_scheme \<Rightarrow> string list option \<Rightarrow> string \<Rightarrow> string set \<Rightarrow> mirrorResult" where
  "mirrorAttachments P atts workspaceRoot guidelineOriginals =
     (if noAttachments atts
      then \<lparr> mirroredAttachments = None, guidelineMirrors = {}, mirrorOps = [] \<rparr>
      else
        let filesRoot = join P workspaceRoot FILES_DIR;
            start = \<lparr> mirrored = [], mirrorsOfGuidelines = {}, nameCounts = Map.empty, copies = [] \<rparr>;
            final = foldl (mirrorStep P filesRoot guidelineOriginals) start (the atts)
        in \<lparr> mirroredAttachments = Some (mirrored final),
             guidelineMirrors = mirrorsOfGuidelines final,
             mirrorOps = MkdirRecursive filesRoot # copies final \<rparr>)"

subsection \<open>The environment validator\<close>

record codexResolvedConfig =
  executable :: string
  profile :: "string option"
  model :: "string option"
  approvalPreset :: "string option"
  timeoutMs :: "int option"
  cwd :: "string option"

text \<open>
  What the provider reads from its surroundings: \<^verbatim>\<open>process.env\<close>, \<^verbatim>\<open>access(p, F_OK)\<close>
  (\<open>None\<close> when it resolves, the rejection otherwise), \<^verbatim>\<open>execAsync(cmd)\<close> (its
  \<^verbatim>\<open>stdout\<close>, or the rejection), \<^verbatim>\<open>process.platform\<close>, \<^verbatim>\<open>homedir()\<close>,
  \<^verbatim>\<open>tmpdir()\<close> and the directory \<^verbatim>\<open>mkdtemp\<close> creates for a prefix.
\<close>

record world =
  processEnv :: "string \<rightharpoonup> string"
  access :: "string \<Rightarrow> error option"
  exec :: "string \<Rightarrow> error + string"
  processPlatform :: string
  homedir :: string
  tmpdir :: string
  mkdtemp :: "string \<Rightarrow> string"

text \<open>
  The two private fields a provider instance mutates. \<open>environmentCheck\<close> is the stored
  promise, given by the outcome it settles with. \<open>validationRuns\<close> is not a field of the
  class: it counts the calls of \<^verbatim>\<open>validateEnvironment\<close>, for the properties below.
\<close>

record codexProvider =
  environmentCheck :: "(error + unit) option"
  resolvedExecutable :: "string option"
  validationRuns :: nat

definition newCodexProvider :: codexProvider where
  "newCodexProvider = \<lparr> environmentCheck = None, resolvedExecutable = None, validationRuns = 0 \<rparr>"

text \<open>\<^verbatim>\<open>Boolean(v && v.trim().length > 0)\<close> for an environment variable.\<close>

fun nonBlank :: "string option \<Rightarrow> bool" where
  "nonBlank None = False"
| "nonBlank (Some v) = (v \<noteq> [] \<and> 0 < length (trim v))"

definition ensureFileExists :: "'w world_scheme \<Rightarrow> string \<Rightarrow> string \<Rightarrow> error + unit" where
  "ensureFileExists W filePath message =
     (case access W filePath of
        None \<Rightarrow> Inr ()
      | Some rejection \<Rightarrow> Inl (Error (message @ '': '' @ filePath)))"

definition resolveCodexConfigPath ::
  "'a platform_scheme \<Rightarrow> 'w world_scheme \<Rightarrow> string option \<Rightarrow> string" where
  "resolveCodexConfigPath P W override =
     (if nonBlank override then resolve P (trim (the override))
      else join P (join P (homedir W) ''.codex'') ''config'')"

text \<open>\<^verbatim>\<open>stdout.split(/\r?\n/)\<close>: the first argument is the piece being read,
  reversed.\<close>

fun splitLines :: "string \<Rightarrow> string \<Rightarrow> string list" where
  "splitLines cur [] = [rev cur]"
| "splitLines cur (c # rest) =
     (if c = CHR 0x0A then rev cur # splitLines [] rest
      else if c = CHR 0x0D \<and> rest \<noteq> [] \<and> hd rest = CHR 0x0A then rev cur # splitLines [] (tl rest)
      else splitLines (c # cur) rest)"

definition locateExecutable ::
  "'a platform_scheme \<Rightarrow> 'w world_scheme \<Rightarrow> string \<Rightarrow> error + string" where
  "locateExecutable P W candidate =
     (let includesPathSeparator = (CHR ''/'' \<in> set candidate \<or> CHR 0x5C \<in> set candidate)
      in if includesPathSeparator
         then
           let resolved = (if isAbsolute P candidate then candidate else resolve P candidate)
           in (case access W resolved of
                 Some rejection \<Rightarrow> Inl rejection
               | None \<Rightarrow> Inr resolved)
         else
           let locator = (if processPlatform W = ''win32'' then ''where'' else ''which'');
               firstLine = (case exec W (locator @ '' '' @ candidate) of
                              Inr out \<Rightarrow> List.find (\<lambda>line. 0 < length line) (map trim (splitLines [] out))
                            | Inl rejection \<Rightarrow> None)
           in (case firstLine of
                 Some line \<Rightarrow> Inr line
               | None \<Rightarrow> Inl (Error (''Codex executable '' @ [CHR 0x27] @ candidate @ [CHR 0x27] @
                                       '' was not found on PATH''))))"

definition missingCredentials :: error where
  "missingCredentials =
     Error ''Codex provider requires OPENAI_API_KEY or CODEX_API_KEY to be set before running evals''"

definition validateEnvironment ::
  "'a platform_scheme \<Rightarrow> 'w world_scheme \<Rightarrow> 'c codexResolvedConfig_scheme \<Rightarrow>
   codexProvider \<Rightarrow> (error + unit) \<times> codexProvider" where
  "validateEnvironment P W config this =
     (let env = processEnv W;
          hasOpenAi = nonBlank (env ''OPENAI_API_KEY'');
          hasCodex = nonBlank (env ''CODEX_API_KEY'')
      in if \<not> hasOpenAi \<and> \<not> hasCodex then (Inl missingCredentials, this)
         else
           let configPath = resolveCodexConfigPath P W (env ''CODEX_CONFIG_PATH'')
           in (case ensureFileExists W configPath
                      ''Codex configuration (~/.codex/config) was not found'' of
                 Inl e \<Rightarrow> (Inl e, this)
               | Inr u \<Rightarrow>
                   (case locateExecutable P W (executable config) of
                      Inl e \<Rightarrow> (Inl e, this)
                    | Inr located \<Rightarrow> (Inr (), this\<lparr> resolvedExecutable := Some located \<rparr>))))"

definition ensureEnvironmentReady ::
  "'a platform_scheme \<Rightarrow> 'w world_scheme \<Rightarrow> 'c codexResolvedConfig_scheme \<Rightarrow>
   codexProvider \<Rightarrow> (error + unit) \<times> codexProvider" where
  "ensureEnvironmentReady P W config this =
     (case environmentCheck this of
        Some outcome \<Rightarrow> (outcome, this)
      | None \<Rightarrow>
          let validated = validateEnvironment P W config
                            (this\<lparr> validationRuns := validationRuns this + 1 \<rparr>);
              this' = (snd validated)\<lparr> environmentCheck := Some (fst validated) \<rparr>
          in (fst validated, this'))"


subsection \<open>Running the executable\<close>

text \<open>\<^verbatim>\<open>CodexRunOptions\<close> and \<^verbatim>\<open>CodexRunResult\<close>. \<open>runSignal\<close> is \<open>None\<close> when no
  signal is passed, and otherwise says whether the signal is already aborted.\<close>

record codexRunOptions =
  runExecutable :: string
  runArgs :: "string list"
  runCwd :: string
  runPrompt :: string
  runTimeoutMs :: "int option"
  runEnv :: "string \<rightharpoonup> string"
  runSignal :: "bool option"

record codexRunResult =
  stdout :: string
  stderr :: string
  exitCode :: int
  timedOut :: "bool option"

text \<open>\<^verbatim>\<open>if (s)\<close> for an optional string: defined and not empty.\<close>

fun truthyString :: "string option \<Rightarrow> bool" where
  "truthyString (Some s) = (s \<noteq> [])"
| "truthyString None = False"

definition resolveCwd :: "'a platform_scheme \<Rightarrow> 'c codexResolvedConfig_scheme \<Rightarrow> string \<Rightarrow> string" where
  "resolveCwd P config workspaceRoot =
     (if \<not> truthyString (cwd config) then workspaceRoot else resolve P (the (cwd config)))"

definition buildCodexArgs :: "'c codexResolvedConfig_scheme \<Rightarrow> string list" where
  "buildCodexArgs config =
     (let args0 = [''--quiet'', ''--json''];
          args1 = (if truthyString (profile config)
                   then args0 @ [''--profile'', the (profile config)] else args0);
          args2 = (if truthyString (model config)
                   then args1 @ [''--model'', the (model config)] else args1);
          args3 = (if truthyString (approvalPreset config)
                   then args2 @ [''--approval-preset'', the (approvalPreset config)] else args2)
      in args3)"

text \<open>\<^verbatim>\<open>this.resolvedExecutable ?? this.config.executable\<close>\<close>

definition executableInUse :: "'c codexResolvedConfig_scheme \<Rightarrow> codexProvider \<Rightarrow> string" where
  "executableInUse config this =
     (case resolvedExecutable this of Some located \<Rightarrow> located | None \<Rightarrow> executable config)"

text \<open>The runner is a constructor argument: a function from the options to the result,
  or to the exception it rejects with.\<close>

definition executeCodex ::
  "'w world_scheme \<Rightarrow> (codexRunOptions \<Rightarrow> error + codexRunResult) \<Rightarrow>
   'c codexResolvedConfig_scheme \<Rightarrow> codexProvider \<Rightarrow>
   string list \<Rightarrow> string \<Rightarrow> string \<Rightarrow> bool option \<Rightarrow> error + codexRunResult" where
  "executeCodex W runCodex config this args dir promptContent signal =
     (case runCodex \<lparr> runExecutable = executableInUse config this,
                      runArgs = args,
                      runCwd = dir,
                      runPrompt = promptContent,
                      runTimeoutMs = timeoutMs config,
                      runEnv = processEnv W,
                      runSignal = signal \<rparr> of
        Inr result \<Rightarrow> Inr result
      | Inl err \<Rightarrow>
          (case err of
             Errno code msg \<Rightarrow>
               if code = ''ENOENT''
               then Inl (Error (''Codex executable '' @ [CHR 0x27] @ executable config @ [CHR 0x27] @
                  '' was not found. Update the target settings.executable or add it to PATH.''))
               else Inl err
           | Error msg \<Rightarrow> Inl err))"

definition pickDetail :: "string \<Rightarrow> string \<Rightarrow> string option" where
  "pickDetail err out =
     (let errorText = trim err
      in if 0 < length errorText then Some errorText
         else let stdoutText = trim out
              in if 0 < length stdoutText then Some stdoutText else None)"

text \<open>
  \<^verbatim>\<open>timeoutMs\<close> is a number of the runtime; the model takes it for a whole number of
  milliseconds. For such a value \<^verbatim>\<open>Math.ceil(timeoutMs / 1000)\<close> is the quotient below
  and the template literal prints its decimal digits, as long as the seconds stay under
  \<open>10\<^sup>2\<^sup>1\<close>; past that, and for a fractional value, the runtime's floating-point
  division and its exponent notation are not described here.
\<close>

definition formatTimeoutSuffix :: "int option \<Rightarrow> string" where
  "formatTimeoutSuffix ms =
     (case ms of
        None \<Rightarrow> []
      | Some t \<Rightarrow>
          if t = 0 \<or> t \<le> 0 then []
          else let seconds = (t + 999) div 1000
               in '' after '' @ showInt seconds @ ''s'')"

record codexRaw =
  rawResponse :: json
  rawStdout :: string
  rawStderr :: string
  rawExitCode :: int
  rawArgs :: "string list"
  rawExecutable :: string
  rawPromptFile :: string
  rawWorkspace :: string
  rawAttachments :: "string list option"

text \<open>\<^verbatim>\<open>ProviderResponse\<close>; \<open>responseText\<close> is its field \<^verbatim>\<open>text\<close>.\<close>

record codexResponse =
  responseText :: string
  raw :: codexRaw

text \<open>The body of the \<^verbatim>\<open>try\<close> block of \<^verbatim>\<open>invoke\<close>: the outcome and the file
  operations made before it.\<close>

definition invokeInWorkspace ::
  "'a platform_scheme \<Rightarrow> 'w world_scheme \<Rightarrow> (codexRunOptions \<Rightarrow> error + codexRunResult) \<Rightarrow>
   (string \<Rightarrow> json option) \<Rightarrow> 'c codexResolvedConfig_scheme \<Rightarrow> codexProvider \<Rightarrow>
   'b providerRequest_scheme \<Rightarrow> string list option \<Rightarrow> string set \<Rightarrow> string \<Rightarrow>
   (error + codexResponse) \<times> fsOp list" where
  "invokeInWorkspace P W runCodex JSON_parse config this request atts originalGuidelines workspaceRoot =
     (let mirror = mirrorAttachments P atts workspaceRoot originalGuidelines;
          promptContent = buildPromptDocument P request (mirroredAttachments mirror)
             (Some \<lparr> guidelinePatterns = guideline_patterns request,
                     guidelineOverrides = Some (guidelineMirrors mirror) \<rparr>);
          promptFile = join P workspaceRoot PROMPT_FILENAME;
          ops = mirrorOps mirror @ [WriteFile promptFile promptContent];
          args = buildCodexArgs config;
          dir = resolveCwd P config workspaceRoot
      in case executeCodex W runCodex config this args dir promptContent (signalAborted request) of
           Inl e \<Rightarrow> (Inl e, ops)
         | Inr result \<Rightarrow>
             if timedOut result = Some True
             then (Inl (Error (''Codex CLI timed out'' @ formatTimeoutSuffix (timeoutMs config))), ops)
             else if exitCode result \<noteq> 0
             then
               let detail = pickDetail (stderr result) (stdout result);
                   prefix = ''Codex CLI exited with code '' @ showInt (exitCode result)
               in (Inl (Error (if truthyString detail then prefix @ '': '' @ the detail else prefix)), ops)
             else
               (case parseCodexJson JSON_parse (stdout result) of
                  Inl e \<Rightarrow> (Inl e, ops)
                | Inr parsed \<Rightarrow>
                    (case extractAssistantText parsed of
                       Inl e \<Rightarrow> (Inl e, ops)
                     | Inr assistantText \<Rightarrow>
                         (Inr \<lparr> responseText = assistantText,
                                raw = \<lparr> rawResponse = parsed,
                                        rawStdout = stdout result,
                                        rawStderr = stderr result,
                                        rawExitCode = exitCode result,
                                        rawArgs = args,
                                        rawExecutable = executableInUse config this,
                                        rawPromptFile = promptFile,
                                        rawWorkspace = workspaceRoot,
                                        rawAttachments = mirroredAttachments mirror \<rparr> \<rparr>, ops))))"

definition abortedBeforeExecution :: error where
  "abortedBeforeExecution = Error ''Codex provider request was aborted before execution''"

text \<open>\<^verbatim>\<open>CodexProvider.invoke\<close>: the outcome, the provider's fields afterwards and the
  file operations made. The \<^verbatim>\<open>finally\<close> block removes the workspace on every path
  that created one.\<close>

definition invoke ::
  "'a platform_scheme \<Rightarrow> 'w world_scheme \<Rightarrow> (codexRunOptions \<Rightarrow> error + codexRunResult) \<Rightarrow>
   (string \<Rightarrow> json option) \<Rightarrow> 'c codexResolvedConfig_scheme \<Rightarrow> codexProvider \<Rightarrow>
   'b providerRequest_scheme \<Rightarrow> (error + codexResponse) \<times> codexProvider \<times> fsOp list" where
  "invoke P W runCodex JSON_parse config this request =
     (if signalAborted request = Some True then (Inl abortedBeforeExecution, this, [])
      else
        case ensureEnvironmentReady P W config this of
          (Inl e, this') \<Rightarrow> (Inl e, this', [])
        | (Inr ready, this') \<Rightarrow>
            let atts = normalizeAttachments P (attachments request);
                originalGuidelines =
                  set (map (resolve P) (collectGuidelineFiles P atts (guideline_patterns request) None));
                workspaceRoot = mkdtemp W (join P (tmpdir W) WORKSPACE_PREFIX);
                body = invokeInWorkspace P W runCodex JSON_parse config this' request atts
                         originalGuidelines workspaceRoot
            in (fst body, this', Mkdtemp workspaceRoot # snd body @ [RmRecursive workspaceRoot]))"


subsection \<open>defaultCodexRunner\<close>

text \<open>
  The runner is event-driven: after the synchronous part of the promise executor has
  run, the runtime calls the handlers one at a time, each to completion. The model is
  the state the handlers share and one step per delivered event:
  \<^item> \<open>AbortFired\<close>: the signal dispatches \<^verbatim>\<open>abort\<close>;
  \<^item> \<open>TimerExpired\<close>: the timer of \<^verbatim>\<open>setTimeout\<close> expires;
  \<^item> \<open>StdoutData\<close>, \<open>StderrData\<close>: a chunk arrives on a stream;
  \<^item> \<open>StdinError\<close>: \<^verbatim>\<open>child.stdin\<close> emits \<^verbatim>\<open>error\<close>, as it does with \<^verbatim>\<open>EPIPE\<close> when
    the process has gone before the prompt is written;
  \<^item> \<open>ChildExit\<close>: the operating-system process ends;
  \<^item> \<open>ChildError\<close>, \<open>ChildClose\<close>: the child emits \<^verbatim>\<open>error\<close> or \<^verbatim>\<open>close\<close>.
  When a timer expires is up to the runtime: a trace may hold \<open>TimerExpired\<close> anywhere.
\<close>

datatype runnerEvent =
    AbortFired
  | TimerExpired
  | StdoutData string
  | StderrData string
  | StdinError error
  | ChildExit
  | ChildError error
  | ChildClose "int option"

text \<open>
  \<open>out\<close>, \<open>err\<close> and \<open>timedOutVar\<close> are the variables \<^verbatim>\<open>stdout\<close>, \<^verbatim>\<open>stderr\<close>
  and \<^verbatim>\<open>timedOut\<close>; \<open>abortListening\<close> says that \<^verbatim>\<open>onAbort\<close> is registered on the
  signal, \<open>timerPending\<close> that the timer is set and neither expired nor cleared;
  \<open>stdinEnded\<close> is the argument of \<^verbatim>\<open>child.stdin.end\<close>; \<open>settled\<close> is what the
  promise resolved or rejected with. The runner registers no \<^verbatim>\<open>error\<close> listener on
  \<^verbatim>\<open>child.stdin\<close>, so an error of that stream is thrown by the runtime as an uncaught
  exception: \<open>uncaught\<close> holds it, and no handler of the runner runs after it. The child
  is the runtime's: \<open>childExited\<close> says that its process has ended, \<open>killRequests\<close>
  lists the arguments of the calls of \<^verbatim>\<open>child.kill\<close>, \<open>signalsDelivered\<close> the signals
  that reached a process.
\<close>

record runnerState =
  out :: string
  err :: string
  timedOutVar :: bool
  abortListening :: bool
  timerPending :: bool
  stdinEnded :: "string option"
  settled :: "(error + codexRunResult) option"
  uncaught :: "error option"
  childExited :: bool
  killRequests :: "string list"
  signalsDelivered :: "string list"

text \<open>
  \<^verbatim>\<open>child.kill(signal)\<close>, as the runtime documents it: the signal goes to a running
  process; for a process that has ended the call returns \<^verbatim>\<open>false\<close> and does not
  throw.
\<close>

definition childKill :: "string \<Rightarrow> runnerState \<Rightarrow> runnerState" where
  "childKill signal st =
     (let requested = st\<lparr> killRequests := killRequests st @ [signal] \<rparr>
      in if childExited st then requested
         else requested\<lparr> signalsDelivered := signalsDelivered st @ [signal] \<rparr>)"

definition onAbort :: "runnerState \<Rightarrow> runnerState" where
  "onAbort st = childKill ''SIGTERM'' st"

text \<open>The callback handed to \<^verbatim>\<open>setTimeout\<close>.\<close>

definition onTimeout :: "runnerState \<Rightarrow> runnerState" where
  "onTimeout st = childKill ''SIGTERM'' (st\<lparr> timedOutVar := True \<rparr>)"

definition cleanup :: "runnerState \<Rightarrow> runnerState" where
  "cleanup st = st\<lparr> timerPending := False, abortListening := False \<rparr>"

text \<open>\<^verbatim>\<open>resolve\<close> and \<^verbatim>\<open>reject\<close> of a promise: the first call settles it.\<close>

definition settle :: "error + codexRunResult \<Rightarrow> runnerState \<Rightarrow> runnerState" where
  "settle outcome st = (if settled st = None then st\<lparr> settled := Some outcome \<rparr> else st)"

text \<open>The promise executor up to its last statement, in the order of the source: the
  signal, the timer, the prompt written to \<^verbatim>\<open>child.stdin\<close>. It gives the state when
  the first event can be delivered.\<close>

definition startRunner :: "'o codexRunOptions_scheme \<Rightarrow> runnerState" where
  "startRunner options =
     (let st0 = \<lparr> out = [], err = [], timedOutVar = False, abortListening = False,
                  timerPending = False, stdinEnded = None, settled = None, uncaught = None,
                  childExited = False, killRequests = [], signalsDelivered = [] \<rparr>;
          st1 = (case runSignal options of
                   None \<Rightarrow> st0
                 | Some aborted \<Rightarrow> if aborted then onAbort st0 else st0\<lparr> abortListening := True \<rparr>);
          st2 = (case runTimeoutMs options of
                   None \<Rightarrow> st1
                 | Some ms \<Rightarrow> if ms \<noteq> 0 \<and> 0 < ms then st1\<lparr> timerPending := True \<rparr> else st1);
          st3 = st2\<lparr> stdinEnded := Some (runPrompt options) \<rparr>
      in st3)"

text \<open>The handler of one event, when no exception is uncaught.\<close>

fun handleEvent :: "runnerState \<Rightarrow> runnerEvent \<Rightarrow> runnerState" where
  "handleEvent st AbortFired =
     (if abortListening st then onAbort (st\<lparr> abortListening := False \<rparr>) else st)"
| "handleEvent st TimerExpired =
     (if timerPending st then onTimeout (st\<lparr> timerPending := False \<rparr>) else st)"
| "handleEvent st (StdoutData chunk) = st\<lparr> out := out st @ chunk \<rparr>"
| "handleEvent st (StderrData chunk) = st\<lparr> err := err st @ chunk \<rparr>"
| "handleEvent st (StdinError e) = st\<lparr> uncaught := Some e \<rparr>"
| "handleEvent st ChildExit = st\<lparr> childExited := True \<rparr>"
| "handleEvent st (ChildError e) = settle (Inl e) (cleanup st)"
| "handleEvent st (ChildClose code) =
     (let st' = cleanup st
      in settle (Inr \<lparr> stdout = out st',
                       stderr = err st',
                       exitCode = (case code of Some n \<Rightarrow> n | None \<Rightarrow> - 1),
                       timedOut = Some (timedOutVar st') \<rparr>) st')"

definition runnerStep :: "runnerState \<Rightarrow> runnerEvent \<Rightarrow> runnerState" where
  "runnerStep st ev = (if uncaught st \<noteq> None then st else handleEvent st ev)"

text \<open>The runner on a trace of events: the state after the last of them.\<close>

definition defaultCodexRunner :: "'o codexRunOptions_scheme \<Rightarrow> runnerEvent list \<Rightarrow> runnerState" where
  "defaultCodexRunner options events = foldl runnerStep (startRunner options) events"

section \<open>The session-based provider (vscode.ts)\<close>

text \<open>
  The sources hold this file twice, the copies differing in names only
  (\<^verbatim>\<open>attachments\<close> against \<^verbatim>\<open>inputFiles\<close>); the names here are those of the copy
  that goes with \<^verbatim>\<open>preread.ts\<close>. \<^verbatim>\<open>readFile\<close> is a parameter: it gives the text of
  a response file, or the exception the read is rejected with.
\<close>

record vscodeResolvedConfig =
  command :: string
  waitForResponse :: bool
  dryRun :: bool
  subagentRoot :: "string option"
  workspaceTemplate :: "string option"

text \<open>The argument and the result of \<^verbatim>\<open>dispatchBatchAgent\<close>, a function of the
  \<^verbatim>\<open>subagent\<close> package: the provider takes it as a parameter.\<close>

record batchDispatch =
  userQueries :: "string list"
  extraAttachments :: "string list option"
  wait :: bool
  dispatchDryRun :: bool
  vscodeCmd :: string
  dispatchSubagentRoot :: "string option"
  dispatchWorkspaceTemplate :: "string option"
  silent :: bool

record batchSession =
  sessionExitCode :: int
  responseFiles :: "string list option"
  sessionError :: "string option"

record vscodeRaw =
  session :: batchSession
  requestAttachments :: "string list option"
  allAttachments :: "string list option"
  responseFile :: "string option"

record vscodeResponse =
  batchText :: string
  batchRaw :: vscodeRaw

definition mergeAttachments :: "'a platform_scheme \<Rightarrow> string list option list \<Rightarrow> string list option" where
  "mergeAttachments P all =
     (let deduped =
            foldl (\<lambda>acc list.
                     case list of
                       None \<Rightarrow> acc
                     | Some l \<Rightarrow> foldl (\<lambda>acc' attachment. setIfAbsent acc' (resolve P attachment)) acc l)
                  [] all
      in if 0 < length deduped then Some deduped else None)"

text \<open>\<^verbatim>\<open>normalizedRequests\<close>: each request with its own normalized attachments.\<close>

definition normalizeRequests ::
  "'a platform_scheme \<Rightarrow> 'b providerRequest_scheme list \<Rightarrow>
   ('b providerRequest_scheme \<times> string list option) list" where
  "normalizeRequests P requests =
     map (\<lambda>req. (req, normalizeAttachments P (attachments req))) requests"

text \<open>The object \<^verbatim>\<open>invokeBatch\<close> passes to \<^verbatim>\<open>dispatchBatchAgent\<close>.\<close>

definition batchCall ::
  "'a platform_scheme \<Rightarrow> 'v vscodeResolvedConfig_scheme \<Rightarrow> 'b providerRequest_scheme list \<Rightarrow>
   batchDispatch" where
  "batchCall P config requests =
     (let normalizedRequests = normalizeRequests P requests;
          combinedAttachments = mergeAttachments P (map snd normalizedRequests)
      in \<lparr> userQueries = map (\<lambda>(request, atts). buildPromptDocument P request atts None)
                             normalizedRequests,
           extraAttachments = combinedAttachments,
           wait = waitForResponse config,
           dispatchDryRun = dryRun config,
           vscodeCmd = command config,
           dispatchSubagentRoot = subagentRoot config,
           dispatchWorkspaceTemplate = workspaceTemplate config,
           silent = True \<rparr>)"

text \<open>
  The loop over \<^verbatim>\<open>session.responseFiles.entries()\<close>, from \<open>index\<close> on. The first
  component is the list of responses, or the rejection of the first read that fails,
  which ends the loop; the second lists the files whose read was awaited, in order.
  \<^verbatim>\<open>normalizedRequests[index]?.attachments\<close> is \<^verbatim>\<open>undefined\<close> past the end.
\<close>

fun readResponses ::
  "(string \<Rightarrow> error + string) \<Rightarrow> batchSession \<Rightarrow> ('r \<times> string list option) list \<Rightarrow>
   string list option \<Rightarrow> nat \<Rightarrow> string list \<Rightarrow> (error + vscodeResponse list) \<times> string list" where
  "readResponses readFile sess normalizedRequests combined index [] = (Inr [], [])"
| "readResponses readFile sess normalizedRequests combined index (file # files) =
     (case readFile file of
        Inl rejection \<Rightarrow> (Inl rejection, [file])
      | Inr fileText \<Rightarrow>
          (let response = \<lparr> batchText = fileText,
                            batchRaw = \<lparr> session = sess,
                                         requestAttachments =
                                           (if index < length normalizedRequests
                                            then snd (normalizedRequests ! index) else None),
                                         allAttachments = combined,
                                         responseFile = Some file \<rparr> \<rparr>;
               later = readResponses readFile sess normalizedRequests combined (Suc index) files
           in (case fst later of
                 Inl rejection \<Rightarrow> (Inl rejection, file # snd later)
               | Inr responses \<Rightarrow> (Inr (response # responses), file # snd later))))"

text \<open>\<^verbatim>\<open>new Error(session.error ?? "VS Code subagent did not produce batch responses")\<close>\<close>

definition sessionFailure :: "batchSession \<Rightarrow> error" where
  "sessionFailure sess =
     Error (case sessionError sess of
              Some failure \<Rightarrow> failure
            | None \<Rightarrow> ''VS Code subagent did not produce batch responses'')"

definition batchCountMismatch :: "nat \<Rightarrow> nat \<Rightarrow> error" where
  "batchCountMismatch returned requested =
     Error (''VS Code batch returned '' @ showNat returned @ '' responses for '' @
            showNat requested @ '' requests'')"

text \<open>\<^verbatim>\<open>VSCodeProvider.invokeBatch\<close>: the outcome and the response files read.\<close>

definition invokeBatch ::
  "'a platform_scheme \<Rightarrow> (batchDispatch \<Rightarrow> batchSession) \<Rightarrow> (string \<Rightarrow> error + string) \<Rightarrow>
   'v vscodeResolvedConfig_scheme \<Rightarrow> 'b providerRequest_scheme list \<Rightarrow>
   (error + vscodeResponse list) \<times> string list" where
  "invokeBatch P dispatchBatchAgent readFile config requests =
     (if length requests = 0 then (Inr [], [])
      else
        let normalizedRequests = normalizeRequests P requests;
            combinedAttachments = mergeAttachments P (map snd normalizedRequests);
            sess = dispatchBatchAgent (batchCall P config requests)
        in if sessionExitCode sess \<noteq> 0 \<or> responseFiles sess = None
           then (Inl (sessionFailure sess), [])
           else if dryRun config
           then (Inr (map (\<lambda>(request, atts).
                             \<lparr> batchText = [],
                               batchRaw = \<lparr> session = sess,
                                            requestAttachments = atts,
                                            allAttachments = combinedAttachments,
                                            responseFile = None \<rparr> \<rparr>) normalizedRequests), [])
           else if length (the (responseFiles sess)) \<noteq> length requests
           then (Inl (batchCountMismatch (length (the (responseFiles sess))) (length requests)), [])
           else readResponses readFile sess normalizedRequests combinedAttachments 0
                  (the (responseFiles sess)))"


section \<open>The specification's formulations\<close>

text \<open>
  The definitions of this section are written from the specification's sentences, not
  from the code; each is compared with the code's function in the next section.
\<close>

subsection \<open>Flattening rule\<close>

text \<open>Per-element text: a string element as it is, an object element through its
  \<^verbatim>\<open>text\<close> field.\<close>

fun spec_pieceText :: "json \<Rightarrow> string option" where
  "spec_pieceText (JStr s) = Some s"
| "spec_pieceText (JObj kvs) = (case map_of kvs ''text'' of Some (JStr t) \<Rightarrow> Some t | _ \<Rightarrow> None)"
| "spec_pieceText _ = None"

text \<open>The flattening rule with the separator left open: a string as it is; an array
  as its non-empty pieces joined by the separator; a bare object as its \<^verbatim>\<open>text\<close>
  field when that is a string; no text otherwise.\<close>

fun spec_flattenWith :: "string \<Rightarrow> json option \<Rightarrow> string option" where
  "spec_flattenWith separator (Some (JStr s)) = Some s"
| "spec_flattenWith separator (Some (JArr segs)) =
     (let pieces = filter (\<lambda>p. p \<noteq> []) (List.map_filter spec_pieceText segs)
      in if pieces = [] then None else Some (joinWith separator pieces))"
| "spec_flattenWith separator (Some (JObj kvs)) =
     (case map_of kvs ''text'' of Some (JStr t) \<Rightarrow> Some t | _ \<Rightarrow> None)"
| "spec_flattenWith separator _ = None"

subsection \<open>Text extraction\<close>

definition isAssistantEntry :: "json \<Rightarrow> bool" where
  "isAssistantEntry entry = (getProp entry ''role'' = Some (JStr ''assistant''))"

text \<open>\<open>v.k1.k2\<close>, undefined when either field is missing.\<close>

definition fieldOfField :: "json \<Rightarrow> string \<Rightarrow> string \<Rightarrow> json option" where
  "fieldOfField v k1 k2 = (case getProp v k1 of None \<Rightarrow> None | Some inner \<Rightarrow> getProp inner k2)"

text \<open>The first candidate that is a non-empty text, or the missing-assistant-message
  error.\<close>

definition firstText :: "string option list \<Rightarrow> error + string" where
  "firstText candidates =
     (case List.find truthyText candidates of
        Some (Some t) \<Rightarrow> Inr t
      | _ \<Rightarrow> Inl missingAssistantMessage)"

text \<open>Candidate (1) as the specification words it: the last entry of \<^verbatim>\<open>messages\<close>
  whose role is \<^verbatim>\<open>assistant\<close>, flattened.\<close>

definition spec_lastAssistantText :: "json \<Rightarrow> string option" where
  "spec_lastAssistantText parsed =
     (case messagesOf parsed of
        None \<Rightarrow> None
      | Some messages \<Rightarrow>
          (case List.find isAssistantEntry (rev messages) of
             None \<Rightarrow> None
           | Some entry \<Rightarrow> flattenContent (getProp entry ''content'')))"

definition spec_extractAssistantText :: "json \<Rightarrow> error + string" where
  "spec_extractAssistantText parsed =
     firstText [spec_lastAssistantText parsed,
                flattenContent (fieldOfField parsed ''response'' ''content''),
                flattenContent (getProp parsed ''output'')]"

text \<open>The flattened contents of all entries whose role is \<^verbatim>\<open>assistant\<close>, the last
  entry first.\<close>

definition assistantTexts :: "json \<Rightarrow> string option list" where
  "assistantTexts parsed =
     (case messagesOf parsed of
        None \<Rightarrow> []
      | Some messages \<Rightarrow>
          map (\<lambda>entry. flattenContent (getProp entry ''content''))
            (filter isAssistantEntry (rev messages)))"

subsection \<open>Parsing policy\<close>

text \<open>The substring that starts at the last opening brace, if there is a brace.\<close>

fun spec_fromLastBrace :: "string \<Rightarrow> string option" where
  "spec_fromLastBrace [] = None"
| "spec_fromLastBrace (c # cs) =
     (case spec_fromLastBrace cs of
        Some found \<Rightarrow> Some found
      | None \<Rightarrow> if c = CHR ''{'' then Some (c # cs) else None)"

definition spec_parseCodexJson :: "(string \<Rightarrow> json option) \<Rightarrow> string \<Rightarrow> error + json" where
  "spec_parseCodexJson JSON_parse output =
     (let trimmed = trim output
      in case JSON_parse trimmed of
           Some v \<Rightarrow> Inr v
         | None \<Rightarrow>
             (case spec_fromLastBrace trimmed of
                None \<Rightarrow> Inl (invalidJsonError trimmed)
              | Some candidate \<Rightarrow>
                  (case JSON_parse candidate of
                     Some v \<Rightarrow> Inr v
                   | None \<Rightarrow> Inl (invalidJsonError trimmed))))"

subsection \<open>Mirrored names\<close>

text \<open>The name the \<open>i\<close>-th attachment is mirrored under: its base name, with the
  suffix \<open>.k\<close> when \<open>k > 0\<close> earlier attachments of the list have the same base name.\<close>

definition mirrorName :: "'a platform_scheme \<Rightarrow> string list \<Rightarrow> nat \<Rightarrow> string" where
  "mirrorName P atts i =
     (let base = basename P (resolve P (atts ! i));
          k = length (filter (\<lambda>a. basename P (resolve P a) = base) (take i atts))
      in if k = 0 then base else base @ ''.'' @ showNat k)"

definition mirrorPath :: "'a platform_scheme \<Rightarrow> string \<Rightarrow> string list \<Rightarrow> nat \<Rightarrow> string" where
  "mirrorPath P workspaceRoot atts i =
     resolve P (join P (join P workspaceRoot FILES_DIR) (mirrorName P atts i))"

subsection \<open>Guideline classification\<close>

text \<open>An attachment is classified as a guideline file when its canonical path is in
  the override set or, with forward slashes, matches a pattern.\<close>

definition classifiedGuideline ::
  "'a platform_scheme \<Rightarrow> string list option \<Rightarrow> string set option \<Rightarrow> string \<Rightarrow> bool" where
  "classifiedGuideline P pats overrides attachment =
     (overridesHas overrides (resolve P attachment) \<or>
      isGuidelineFile P (forwardSlashes P (resolve P attachment)) pats)"

text \<open>How many attachments of a list have the base name \<open>base\<close>.\<close>

definition sameBase :: "'a platform_scheme \<Rightarrow> string \<Rightarrow> string list \<Rightarrow> nat" where
  "sameBase P base xs = length (filter (\<lambda>a. basename P (resolve P a) = base) xs)"

subsection \<open>Prompt documents\<close>

text \<open>
  The prompt document for a request, a list of guideline files and a list of the other
  attachment files: the preread block that lists the two, when there is one, followed by
  the user-query section with the trimmed prompt. The block is rendered by the code's
  \<^verbatim>\<open>buildMandatoryPrereadBlock\<close>.
\<close>

definition promptDocumentOf ::
  "'a platform_scheme \<Rightarrow> 'b providerRequest_scheme \<Rightarrow> string list \<Rightarrow> string list \<Rightarrow> string" where
  "promptDocumentOf P request guidelineFiles attachmentFiles =
     (let prereadBlock = buildMandatoryPrereadBlock P guidelineFiles attachmentFiles;
          parts1 = (if 0 < length prereadBlock then [''\<newline>'', prereadBlock] else []);
          parts2 = parts1 @ [''\<newline>[[ ## user_query ## ]]\<newline>'', trim (prompt request)]
      in trim (joinWith ''\<newline>'' parts2))"

subsection \<open>Batch responses\<close>

text \<open>The response \<^verbatim>\<open>invokeBatch\<close> builds from the text of the file at position
  \<open>j\<close> of a list of response files that is read from entry \<open>index\<close> of the
  session's references on.\<close>

definition responseAt ::
  "batchSession \<Rightarrow> ('r \<times> string list option) list \<Rightarrow>
   string list option \<Rightarrow> nat \<Rightarrow> string list \<Rightarrow> string list \<Rightarrow> nat \<Rightarrow> vscodeResponse" where
  "responseAt sess normalizedRequests combined index files texts j =
     \<lparr> batchText = texts ! j,
       batchRaw = \<lparr> session = sess,
                    requestAttachments =
                      (if index + j < length normalizedRequests
                       then snd (normalizedRequests ! (index + j)) else None),
                    allAttachments = combined,
                    responseFile = Some (files ! j) \<rparr> \<rparr>"

subsection \<open>Calls on one provider instance\<close>

text \<open>
  A provider instance is called again and again, its surroundings and the request
  changing from call to call: the outcomes of the calls in order, and the instance's
  fields after the last.
\<close>

fun invokeAll ::
  "'a platform_scheme \<Rightarrow> (codexRunOptions \<Rightarrow> error + codexRunResult) \<Rightarrow>
   (string \<Rightarrow> json option) \<Rightarrow> 'c codexResolvedConfig_scheme \<Rightarrow> codexProvider \<Rightarrow>
   ('w world_scheme \<times> 'b providerRequest_scheme) list \<Rightarrow>
   (error + codexResponse) list \<times> codexProvider" where
  "invokeAll P runCodex JSON_parse config this [] = ([], this)"
| "invokeAll P runCodex JSON_parse config this (call # calls) =
     (let done = invoke P (fst call) runCodex JSON_parse config this (snd call);
          later = invokeAll P runCodex JSON_parse config (fst (snd done)) calls
      in (fst done # fst later, snd later))"

text \<open>A request that is not aborted when \<^verbatim>\<open>invoke\<close> is entered.\<close>

definition entersInvoke :: "'b providerRequest_scheme \<Rightarrow> bool" where
  "entersInvoke request = (signalAborted request \<noteq> Some True)"

text \<open>
  The checks of the validation in the specification's order: a credential, the
  configuration file, the executable.
\<close>

definition spec_validation ::
  "'a platform_scheme \<Rightarrow> 'w world_scheme \<Rightarrow> 'c codexResolvedConfig_scheme \<Rightarrow> error + unit" where
  "spec_validation P W config =
     (if \<not> (nonBlank (processEnv W ''OPENAI_API_KEY'') \<or> nonBlank (processEnv W ''CODEX_API_KEY''))
      then Inl missingCredentials
      else if access W (resolveCodexConfigPath P W (processEnv W ''CODEX_CONFIG_PATH'')) \<noteq> None
      then Inl (Error (''Codex configuration (~/.codex/config) was not found: '' @
                       resolveCodexConfigPath P W (processEnv W ''CODEX_CONFIG_PATH'')))
      else (case locateExecutable P W (executable config) of
              Inl unresolved \<Rightarrow> Inl unresolved
            | Inr located \<Rightarrow> Inr ()))"

subsection \<open>Memoized readiness\<close>

text \<open>Either nothing is stored and the validation has not run, or an outcome is stored
  and the validation has run once.\<close>

definition memoConsistent :: "codexProvider \<Rightarrow> bool" where
  "memoConsistent this =
     (if environmentCheck this = None then validationRuns this = 0 else validationRuns this = 1)"

subsection \<open>Runs of the process runner\<close>

text \<open>\<^verbatim>\<open>options.timeoutMs && options.timeoutMs > 0\<close>: a timer is set.\<close>

definition timerConfigured :: "'o codexRunOptions_scheme \<Rightarrow> bool" where
  "timerConfigured options = (case runTimeoutMs options of None \<Rightarrow> False | Some ms \<Rightarrow> 0 < ms)"

text \<open>The events that end a run for the runner: the child closes or fails, or an error
  of its stdin goes uncaught.\<close>

fun endsRun :: "runnerEvent \<Rightarrow> bool" where
  "endsRun (ChildClose code) = True"
| "endsRun (ChildError e) = True"
| "endsRun (StdinError e) = True"
| "endsRun _ = False"

text \<open>A trace in which the run has not ended.\<close>

definition running :: "runnerEvent list \<Rightarrow> bool" where
  "running events = (filter endsRun events = [])"

text \<open>The output a trace delivers on each stream.\<close>

fun stdoutChunk :: "runnerEvent \<Rightarrow> string" where
  "stdoutChunk (StdoutData chunk) = chunk"
| "stdoutChunk _ = []"

fun stderrChunk :: "runnerEvent \<Rightarrow> string" where
  "stderrChunk (StderrData chunk) = chunk"
| "stderrChunk _ = []"

text \<open>The cancellation signal asks for termination: it is aborted when the run starts,
  or it fires during the trace.\<close>

definition cancelled :: "'o codexRunOptions_scheme \<Rightarrow> runnerEvent list \<Rightarrow> bool" where
  "cancelled options events =
     (runSignal options = Some True \<or> (runSignal options = Some False \<and> AbortFired \<in> set events))"

text \<open>A timer is set and expires during the trace.\<close>

definition timerFired :: "'o codexRunOptions_scheme \<Rightarrow> runnerEvent list \<Rightarrow> bool" where
  "timerFired options events = (timerConfigured options \<and> TimerExpired \<in> set events)"

text \<open>The state of the runner after a trace in which the run has not ended.\<close>

definition runningState ::
  "'o codexRunOptions_scheme \<Rightarrow> runnerEvent list \<Rightarrow> runnerState \<Rightarrow> bool" where
  "runningState options events st =
     (out st = concat (map stdoutChunk events) \<and>
      err st = concat (map stderrChunk events) \<and>
      timedOutVar st = timerFired options events \<and>
      abortListening st = (runSignal options = Some False \<and> AbortFired \<notin> set events) \<and>
      timerPending st = (timerConfigured options \<and> TimerExpired \<notin> set events) \<and>
      stdinEnded st = Some (runPrompt options) \<and>
      settled st = None \<and> uncaught st = None \<and>
      killRequests st =
        replicate ((if cancelled options events then 1 else 0) +
                   (if timerFired options events then 1 else 0)) ''SIGTERM'')"



section \<open>Example surroundings\<close>

text \<open>
  Concrete values for the parameters, used to evaluate the functions on examples: a
  platform with POSIX separators that resolves a relative path against \<^verbatim>\<open>/work\<close>
  without normalising it and takes a path for a guideline file when it ends in one of
  the patterns; and a parser that accepts the single document \<^verbatim>\<open>{}\<close>.
\<close>

definition endsWith :: "string \<Rightarrow> string \<Rightarrow> bool" where
  "endsWith s suffix = (length suffix \<le> length s \<and> drop (length s - length suffix) s = suffix)"

definition posix :: platform where
  "posix = \<lparr> resolve = (\<lambda>p. if p \<noteq> [] \<and> hd p = CHR ''/'' then p else ''/work/'' @ p),
             basename = (\<lambda>p. rev (takeWhile (\<lambda>c. c \<noteq> CHR ''/'') (rev p))),
             join = (\<lambda>a b. a @ ''/'' @ b),
             sep = CHR ''/'',
             isAbsolute = (\<lambda>p. p \<noteq> [] \<and> hd p = CHR ''/''),
             isGuidelineFile = (\<lambda>p pats. case pats of
                                            None \<Rightarrow> False
                                          | Some ps \<Rightarrow> list_ex (endsWith p) ps) \<rparr>"

definition exampleParse :: "string \<Rightarrow> json option" where
  "exampleParse s = (if s = ''{}'' then Some (JObj []) else None)"

text \<open>
  A session-based provider that is not in dry-run mode and one that is, the two requests
  of the provider's batch test, a reader of two response files and one that finds only
  the first, and sessions that return
  two references, three references, and two references with a non-zero exit code.
\<close>

definition exampleConfig :: vscodeResolvedConfig where
  "exampleConfig = \<lparr> command = ''code'', waitForResponse = True, dryRun = False,
                     subagentRoot = None, workspaceTemplate = None \<rparr>"

definition exampleDryRunConfig :: vscodeResolvedConfig where
  "exampleDryRunConfig = exampleConfig \<lparr> dryRun := True \<rparr>"

definition exampleRequests :: "providerRequest list" where
  "exampleRequests =
     [\<lparr> prompt = ''first'', attachments = Some [''a.txt''], guideline_patterns = None,
        signalAborted = None \<rparr>,
      \<lparr> prompt = ''second'', attachments = Some [''b.txt''], guideline_patterns = None,
        signalAborted = None \<rparr>]"

definition exampleReadFile :: "string \<Rightarrow> error + string" where
  "exampleReadFile file = (if file = ''/tmp/res1.md'' then Inr ''resp-one'' else Inr ''resp-two'')"

definition exampleBrokenReadFile :: "string \<Rightarrow> error + string" where
  "exampleBrokenReadFile file =
     (if file = ''/tmp/res1.md'' then Inr ''resp-one''
      else Inl (Errno ''ENOENT'' ''no such file or directory''))"

definition alignedSession :: batchSession where
  "alignedSession = \<lparr> sessionExitCode = 0,
                       responseFiles = Some [''/tmp/res1.md'', ''/tmp/res2.md''],
                       sessionError = None \<rparr>"

definition longerSession :: batchSession where
  "longerSession = \<lparr> sessionExitCode = 0,
                      responseFiles = Some [''/tmp/res1.md'', ''/tmp/res2.md'', ''/tmp/res3.md''],
                      sessionError = None \<rparr>"

definition failedSession :: batchSession where
  "failedSession = \<lparr> sessionExitCode = 1,
                      responseFiles = Some [''/tmp/res1.md'', ''/tmp/res2.md''],
                      sessionError = None \<rparr>"

definition failedLongerSession :: batchSession where
  "failedLongerSession = longerSession \<lparr> sessionExitCode := 1 \<rparr>"

text \<open>
  A request with two attachments, of which the first matches the guideline pattern by
  the directory it lies in; its mirrored copy, in the workspace, does not.
\<close>

definition guidelineRequest :: providerRequest where
  "guidelineRequest = \<lparr> prompt = ''Hello'',
                         attachments = Some [''/fixtures/prompts/style.md'', ''/fixtures/src/main.py''],
                         guideline_patterns = Some [''/prompts/style.md''],
                         signalAborted = None \<rparr>"

text \<open>
  Surroundings without credentials and surroundings like those of the provider's test
  (a key, a configuration file, an executable given by its path); a provider
  configuration; a runner whose process prints \<^verbatim>\<open>{}\<close>; a request, and the same request
  with a signal that is already aborted.
\<close>

definition bareWorld :: world where
  "bareWorld = \<lparr> processEnv = Map.empty,
                  access = (\<lambda>p. Some (Errno ''ENOENT'' ''no such file or directory'')),
                  exec = (\<lambda>cmd. Inl (Error ''Command failed'')),
                  processPlatform = ''linux'',
                  homedir = ''/home/user'',
                  tmpdir = ''/tmp'',
                  mkdtemp = (\<lambda>prefix. prefix @ ''a1b2c3'') \<rparr>"

definition readyWorld :: world where
  "readyWorld = bareWorld
     \<lparr> processEnv := [''OPENAI_API_KEY'' \<mapsto> ''test-key'', ''CODEX_CONFIG_PATH'' \<mapsto> ''/fixtures/config''],
       access := (\<lambda>p. if p = ''/fixtures/config'' \<or> p = ''/usr/bin/node'' then None
                       else Some (Errno ''ENOENT'' ''no such file or directory'')) \<rparr>"

definition exampleCodexConfig :: codexResolvedConfig where
  "exampleCodexConfig = \<lparr> executable = ''/usr/bin/node'', profile = None, model = None,
                          approvalPreset = None, timeoutMs = None, cwd = None \<rparr>"

definition exampleRunner :: "codexRunOptions \<Rightarrow> error + codexRunResult" where
  "exampleRunner options = Inr \<lparr> stdout = ''{}'', stderr = [], exitCode = 0, timedOut = None \<rparr>"

definition helloRequest :: providerRequest where
  "helloRequest = \<lparr> prompt = ''Hello'', attachments = None, guideline_patterns = None,
                     signalAborted = None \<rparr>"

definition abortedRequest :: providerRequest where
  "abortedRequest = helloRequest \<lparr> signalAborted := Some True \<rparr>"



section \<open>Properties of the response extractor\<close>

text \<open>\<^verbatim>\<open>trim\<close> on the texts of the examples.\<close>

lemma trim_examples:
  "trim ''log: {x} {}  '' = ''log: {x} {}''"
  "trim ''not json'' = ''not json''"
  "trim ''   '' = []"
  "trim ''test-key'' = ''test-key''"
  "trim ''/fixtures/config'' = ''/fixtures/config''"
  "trim [CHR 0xC2, CHR 0xA0, CHR ''a'', CHR 0xE2, CHR 0x80, CHR 0xA8, CHR 0x20] = ''a''"
  by code_simp+

subsection \<open>Flattening\<close>

lemma segmentText_spec: "segmentText seg = spec_pieceText seg"
  by (cases seg) (auto split: option.splits json.splits)

lemma flattenParts_spec:
  "flattenParts segs = filter (\<lambda>p. p \<noteq> []) (List.map_filter spec_pieceText segs)"
  unfolding flattenParts_def
  by (induction segs) (auto simp: List.map_filter_simps segmentText_spec split: option.splits)

text \<open>
  Claim C9, as the code has it. \<^verbatim>\<open>flattenContent\<close> follows the flattening rule with
  the separator \<^verbatim>\<open>" \n"\<close>, a space followed by a newline: a string is returned as it
  is; an array gives its per-element texts (a string element as it is, an object
  element through its \<^verbatim>\<open>text\<close> field when that is a string), the empty ones
  dropped and the others joined by a space and a newline, and no text when no piece is
  left; a bare object gives its \<^verbatim>\<open>text\<close> field when that is a string; anything else
  gives no text.
\<close>

theorem flattenContent_rule:
  "flattenContent v = spec_flattenWith '' \<newline>'' v"
proof (cases v)
  case None
  then show ?thesis by simp
next
  case (Some j)
  then show ?thesis
    by (cases j) (auto simp: flattenParts_spec Let_def split: option.splits json.splits)
qed

text \<open>The rule at an array with a string, an empty string, a text object and a
  number.\<close>

theorem flattenContent_rule_witness:
  "flattenContent (Some (JArr [JStr ''a'', JStr [], JObj [(''text'', JStr ''b'')], JNum 3 0])) =
     Some ''a \<newline>b''"
  using flattenContent_rule [of "Some (JArr [JStr ''a'', JStr [], JObj [(''text'', JStr ''b'')], JNum 3 0])"]
  by (simp add: List.map_filter_simps)

text \<open>
  Claim C9 as the specification states it, with a newline alone as the separator, fails
  on the array \<^verbatim>\<open>["a", "b"]\<close>: the code returns \<^verbatim>\<open>"a \nb"\<close>, the rule with a bare
  newline \<^verbatim>\<open>"a\nb"\<close>.
\<close>

theorem flattenContent_newline_counterexample:
  "flattenContent (Some (JArr [JStr ''a'', JStr ''b''])) = Some ''a \<newline>b'' \<and>
   spec_flattenWith ''\<newline>'' (Some (JArr [JStr ''a'', JStr ''b''])) = Some ''a\<newline>b'' \<and>
   flattenContent (Some (JArr [JStr ''a'', JStr ''b''])) \<noteq>
     spec_flattenWith ''\<newline>'' (Some (JArr [JStr ''a'', JStr ''b'']))"
  by (simp add: flattenParts_def List.map_filter_simps)

subsection \<open>Text extraction\<close>

lemma not_objectLike_getProp: "\<not> isObjectLike (Some v) \<Longrightarrow> getProp v k = None"
  by (cases v) simp_all

lemma scanMessages_find:
  "scanMessages es =
     (case List.find truthyText (map (\<lambda>entry. flattenContent (getProp entry ''content''))
                                  (filter isAssistantEntry es)) of
        Some r \<Rightarrow> r | None \<Rightarrow> None)"
  by (induction es) (auto simp: isAssistantEntry_def Let_def not_objectLike_getProp)

lemma responseContent_eq:
  "responseContent record = flattenContent (fieldOfField record ''response'' ''content'')"
proof (cases "getProp record ''response''")
  case None
  then show ?thesis by (simp add: responseContent_def fieldOfField_def)
next
  case (Some r)
  then show ?thesis by (cases r) (simp_all add: responseContent_def fieldOfField_def)
qed

lemma find_truthy_not_None: "List.find truthyText xs \<noteq> Some None"
  by (auto simp: find_Some_iff)

lemma find_truthy_append:
  "List.find truthyText (xs @ ys) =
     (case List.find truthyText xs of Some r \<Rightarrow> Some r | None \<Rightarrow> List.find truthyText ys)"
  by (induction xs) auto

text \<open>
  Claim C2, as the code has it. For every parsed document, \<^verbatim>\<open>extractAssistantText\<close>
  returns the first non-empty text among these candidates, in this order: the flattened
  content of each entry of \<^verbatim>\<open>messages\<close> whose role is \<^verbatim>\<open>assistant\<close>, from the last
  such entry back to the first (not of the last one only); \<^verbatim>\<open>response.content\<close>,
  flattened; the top-level \<^verbatim>\<open>output\<close>, flattened. When no candidate is a non-empty
  text, it fails with the missing-assistant-message error.
\<close>

theorem extractAssistantText_candidates:
  "extractAssistantText parsed =
     firstText (assistantTexts parsed @
                [flattenContent (fieldOfField parsed ''response'' ''content''),
                 flattenContent (getProp parsed ''output'')])"
proof (cases "isObjectLike (Some parsed)")
  case False
  then have "getProp parsed k = None" for k by (rule not_objectLike_getProp)
  then show ?thesis using False
    by (simp add: extractAssistantText_def firstText_def assistantTexts_def fieldOfField_def)
next
  case True
  show ?thesis
  proof (cases "messagesOf parsed")
    case None
    then show ?thesis using True
      unfolding extractAssistantText_def firstText_def assistantTexts_def responseContent_eq Let_def
      by (cases "flattenContent (fieldOfField parsed ''response'' ''content'')";
          cases "flattenContent (getProp parsed ''output'')"; simp)
  next
    case (Some ms)
    show ?thesis
    proof (cases "scanMessages (rev ms)")
      case None
      then have "List.find truthyText (assistantTexts parsed) = None"
        using Some find_truthy_not_None
        by (auto simp: assistantTexts_def scanMessages_find split: option.splits)
      then show ?thesis using True Some None
        unfolding extractAssistantText_def firstText_def responseContent_eq Let_def find_truthy_append
        by (cases "flattenContent (fieldOfField parsed ''response'' ''content'')";
            cases "flattenContent (getProp parsed ''output'')"; simp)
    next
      case (Some t)
      then have "List.find truthyText (assistantTexts parsed) = Some (Some t)"
        using \<open>messagesOf parsed = Some ms\<close> find_truthy_not_None
        by (auto simp: assistantTexts_def scanMessages_find split: option.splits)
      then show ?thesis using True Some \<open>messagesOf parsed = Some ms\<close>
        unfolding extractAssistantText_def firstText_def Let_def find_truthy_append
        by simp
    qed
  qed
qed

text \<open>The specification's example: a user message followed by an assistant message
  whose content is \<^verbatim>\<open>done\<close>.\<close>

theorem extractAssistantText_candidates_witness:
  "extractAssistantText
     (JObj [(''messages'',
             JArr [JObj [(''role'', JStr ''user''), (''content'', JStr ''x'')],
                   JObj [(''role'', JStr ''assistant''), (''content'', JStr ''done'')]])]) =
   Inr ''done''"
  using extractAssistantText_candidates
    [of "JObj [(''messages'',
             JArr [JObj [(''role'', JStr ''user''), (''content'', JStr ''x'')],
                   JObj [(''role'', JStr ''assistant''), (''content'', JStr ''done'')]])]"]
  by (simp add: firstText_def assistantTexts_def isAssistantEntry_def fieldOfField_def)

text \<open>
  Claim C2 as the specification states it, with the last assistant entry as the only
  candidate from \<^verbatim>\<open>messages\<close>, fails on a document whose last assistant entry has
  empty content while an earlier one has text: the code returns the earlier entry's
  text \<^verbatim>\<open>first\<close>, the specification's order gives the \<^verbatim>\<open>output\<close> field.
\<close>

theorem extractAssistantText_last_only_counterexample:
  "extractAssistantText
     (JObj [(''messages'',
             JArr [JObj [(''role'', JStr ''assistant''), (''content'', JStr ''first'')],
                   JObj [(''role'', JStr ''assistant''), (''content'', JStr [])]]),
            (''output'', JStr ''out'')]) = Inr ''first'' \<and>
   spec_extractAssistantText
     (JObj [(''messages'',
             JArr [JObj [(''role'', JStr ''assistant''), (''content'', JStr ''first'')],
                   JObj [(''role'', JStr ''assistant''), (''content'', JStr [])]]),
            (''output'', JStr ''out'')]) = Inr ''out''"
  by (simp add: extractAssistantText_def spec_extractAssistantText_def spec_lastAssistantText_def
      firstText_def isAssistantEntry_def fieldOfField_def responseContent_def)

subsection \<open>Parsing\<close>

lemma lastIndexOf_absent: "c \<notin> set s \<Longrightarrow> lastIndexOf c s = None"
  by (auto simp: lastIndexOf_def filter_empty_conv)

lemma lastIndexOf_last:
  assumes "c \<notin> set rest"
  shows "lastIndexOf c (pre @ c # rest) = Some (length pre)"
proof -
  let ?s = "pre @ c # rest"
  have "[0..<length pre + Suc (length rest)] =
      [0..<length pre] @ [length pre..<length pre + Suc (length rest)]"
    by (rule upt_add_eq_append) simp
  moreover have "[length pre..<length pre + Suc (length rest)] =
      length pre # [Suc (length pre)..<length pre + Suc (length rest)]"
    by (rule upt_conv_Cons) simp
  ultimately have split:
    "[0..<length ?s] = [0..<length pre] @ [length pre] @ [Suc (length pre)..<length ?s]"
    by simp
  have tail: "filter (\<lambda>i. ?s ! i = c) [Suc (length pre)..<length ?s] = []"
  proof -
    have "?s ! i \<noteq> c" if "Suc (length pre) \<le> i" "i < length ?s" for i
    proof -
      have "?s ! i = rest ! (i - Suc (length pre))"
        using that by (simp add: nth_append nth_Cons')
      moreover have "i - Suc (length pre) < length rest" using that by simp
      ultimately show ?thesis using assms by (metis nth_mem)
    qed
    then show ?thesis unfolding filter_empty_conv set_upt by auto
  qed
  have "filter (\<lambda>i. ?s ! i = c) [0..<length ?s] =
          filter (\<lambda>i. ?s ! i = c) [0..<length pre] @ filter (\<lambda>i. ?s ! i = c) [length pre] @
          filter (\<lambda>i. ?s ! i = c) [Suc (length pre)..<length ?s]"
    by (simp only: split filter_append)
  also have "\<dots> = filter (\<lambda>i. ?s ! i = c) [0..<length pre] @ [length pre]"
    by (simp only: tail) simp
  finally have "filter (\<lambda>i. ?s ! i = c) [0..<length ?s] =
          filter (\<lambda>i. ?s ! i = c) [0..<length pre] @ [length pre]" .
  then show ?thesis unfolding lastIndexOf_def Let_def by (simp only:) simp
qed

lemma spec_fromLastBrace_absent: "CHR ''{'' \<notin> set s \<Longrightarrow> spec_fromLastBrace s = None"
  by (induction s) auto

lemma spec_fromLastBrace_last:
  "CHR ''{'' \<notin> set rest \<Longrightarrow> spec_fromLastBrace (pre @ CHR ''{'' # rest) = Some (CHR ''{'' # rest)"
  by (induction pre) (auto simp: spec_fromLastBrace_absent)

text \<open>\<^verbatim>\<open>trimmed.slice(trimmed.lastIndexOf("{"))\<close> is the substring from the last
  opening brace.\<close>

lemma lastBrace_slice:
  "(case lastIndexOf (CHR ''{'') s of Some i \<Rightarrow> Some (drop i s) | None \<Rightarrow> None) =
     spec_fromLastBrace s"
proof (cases "CHR ''{'' \<in> set s")
  case False
  then show ?thesis by (simp add: lastIndexOf_absent spec_fromLastBrace_absent)
next
  case True
  then obtain pre rest where "s = pre @ CHR ''{'' # rest" "CHR ''{'' \<notin> set rest"
    by (meson split_list_last)
  then show ?thesis by (simp add: lastIndexOf_last spec_fromLastBrace_last)
qed

lemma invalidJsonError_preview:
  "\<exists>before after. invalidJsonError t = Error (before @ take 200 t @ after)"
  unfolding invalidJsonError_def Let_def by blast

text \<open>
  Claim C3, as the code has it. For every raw output whose trimmed form is not empty,
  \<^verbatim>\<open>parseCodexJson\<close> follows the parsing policy: it parses the trimmed output; when
  that fails it parses the substring from the last opening brace; when that fails too,
  or there is no brace, it fails with the invalid-JSON error, whose message holds the
  first 200 characters of the trimmed output. An output that is empty after trimming
  fails before any parse, with the separate no-output error.
\<close>

theorem parseCodexJson_policy:
  "parseCodexJson JSON_parse output =
     (if trim output = [] then Inl noOutputError else spec_parseCodexJson JSON_parse output) \<and>
   (\<exists>before after.
      invalidJsonError (trim output) = Error (before @ take 200 (trim output) @ after))"
proof -
  have "parseCodexJson JSON_parse output =
     (if trim output = [] then Inl noOutputError else spec_parseCodexJson JSON_parse output)"
    unfolding parseCodexJson_def spec_parseCodexJson_def Let_def
    using lastBrace_slice [of "trim output"]
    by (auto split: option.splits)
  then show ?thesis using invalidJsonError_preview by blast
qed

text \<open>Log noise before a document is recovered through the last brace; an output
  with no document fails with its preview.\<close>

theorem parseCodexJson_policy_witness:
  "parseCodexJson exampleParse ''log: {x} {}  '' = Inr (JObj []) \<and>
   parseCodexJson exampleParse ''not json'' = Inl (Error ''Codex CLI emitted invalid JSON: not json'')"
  using parseCodexJson_policy [of exampleParse "''log: {x} {}  ''"]
        parseCodexJson_policy [of exampleParse "''not json''"]
  by (simp add: spec_parseCodexJson_def trim_examples
      exampleParse_def invalidJsonError_def noOutputError_def)

text \<open>
  Claim C3 as the specification states it, for every raw output, fails on an output of
  blanks: the policy would end in the invalid-JSON error with an empty preview, the
  code raises the no-output error.
\<close>

theorem parseCodexJson_blank_counterexample:
  "parseCodexJson exampleParse ''   '' = Inl noOutputError \<and>
   spec_parseCodexJson exampleParse ''   '' = Inl (Error ''Codex CLI emitted invalid JSON: '') \<and>
   parseCodexJson exampleParse ''   '' \<noteq> spec_parseCodexJson exampleParse ''   ''"
  by (simp add: parseCodexJson_def spec_parseCodexJson_def trim_examples
      exampleParse_def invalidJsonError_def noOutputError_def)

section \<open>Properties of attachments, classification and mirroring\<close>

lemma set_setIfAbsent: "set (setIfAbsent unique k) = insert k (set unique)"
  by (auto simp: setIfAbsent_def)

lemma set_guideline_fold:
  "set (foldl (guidelineStep P pats ov) acc xs) =
     set acc \<union> resolve P ` {a \<in> set xs. classifiedGuideline P pats ov a}"
  by (induction xs arbitrary: acc)
     (auto simp: guidelineStep_def classifiedGuideline_def Let_def set_setIfAbsent)

lemma set_collectGuidelineFiles:
  "set (collectGuidelineFiles P (Some as) pats ov) =
     resolve P ` {a \<in> set as. classifiedGuideline P pats ov a}"
  by (auto simp: collectGuidelineFiles_def set_guideline_fold)

text \<open>
  Claim C6. For every request, attachment list, pattern list and override set, the
  guideline list and the plain attachment list that \<^verbatim>\<open>buildPromptDocument\<close> renders
  in the preread block have no path in common.
\<close>

theorem preread_lists_disjoint:
  "set (fst (prereadLists P request atts options)) \<inter>
   set (snd (prereadLists P request atts options)) = {}"
  by (auto simp: prereadLists_def Let_def)

lemma mirrorName_snoc: "i < length xs \<Longrightarrow> mirrorName P (xs @ [x]) i = mirrorName P xs i"
  by (simp add: mirrorName_def nth_append)

lemma mirrorPath_snoc: "i < length xs \<Longrightarrow> mirrorPath P root (xs @ [x]) i = mirrorPath P root xs i"
  by (simp add: mirrorPath_def mirrorName_snoc)

lemma mirrorStep_mirrored:
  "mirrored (mirrorStep P filesRoot G st x) =
     mirrored st @
       [resolve P (join P filesRoot
          (let b = basename P (resolve P x);
               seen = (case nameCounts st b of Some n \<Rightarrow> n | None \<Rightarrow> 0)
           in if seen = 0 then b else b @ ''.'' @ showNat seen))]"
  by (simp add: mirrorStep_def Let_def)

lemma mirrorStep_guidelines:
  "mirrorsOfGuidelines (mirrorStep P filesRoot G st x) =
     (if resolve P x \<in> G then {last (mirrored (mirrorStep P filesRoot G st x))} else {}) \<union>
     mirrorsOfGuidelines st"
  by (simp add: mirrorStep_def Let_def)

lemma mirrorStep_copies:
  "copies (mirrorStep P filesRoot G st x) =
     copies st @
       [CopyFile (resolve P x) (join P filesRoot
          (let b = basename P (resolve P x);
               seen = (case nameCounts st b of Some n \<Rightarrow> n | None \<Rightarrow> 0)
           in if seen = 0 then b else b @ ''.'' @ showNat seen))]"
  by (simp add: mirrorStep_def Let_def)

lemma mirrorStep_nameCounts:
  "nameCounts (mirrorStep P filesRoot G st x) =
     (nameCounts st)(basename P (resolve P x) \<mapsto>
        (case nameCounts st (basename P (resolve P x)) of Some n \<Rightarrow> n | None \<Rightarrow> 0) + 1)"
  by (simp add: mirrorStep_def Let_def)

lemma image_below_Suc:
  "{f i | i. i < Suc n \<and> Q i} = (if Q n then {f n} else {}) \<union> {f i | i. i < n \<and> Q i}"
  by (auto simp: less_Suc_eq)

lemma mirror_fold:
  fixes P :: "'a platform_scheme"
  defines "start \<equiv> \<lparr> mirrored = [], mirrorsOfGuidelines = {}, nameCounts = Map.empty, copies = [] \<rparr>"
  shows "mirrored (foldl (mirrorStep P (join P root FILES_DIR) G) start xs) =
           map (mirrorPath P root xs) [0..<length xs] \<and>
         mirrorsOfGuidelines (foldl (mirrorStep P (join P root FILES_DIR) G) start xs) =
           {mirrorPath P root xs i | i. i < length xs \<and> resolve P (xs ! i) \<in> G} \<and>
         nameCounts (foldl (mirrorStep P (join P root FILES_DIR) G) start xs) =
           (\<lambda>b. if sameBase P b xs = 0 then None else Some (sameBase P b xs)) \<and>
         copies (foldl (mirrorStep P (join P root FILES_DIR) G) start xs) =
           map (\<lambda>i. CopyFile (resolve P (xs ! i))
                            (join P (join P root FILES_DIR) (mirrorName P xs i))) [0..<length xs]"
proof (induction xs rule: rev_induct)
  case Nil
  then show ?case by (simp add: start_def sameBase_def)
next
  case (snoc x xs)
  let ?st = "foldl (mirrorStep P (join P root FILES_DIR) G) start xs"
  let ?b = "basename P (resolve P x)"
  have seen: "(case nameCounts ?st ?b of Some n \<Rightarrow> n | None \<Rightarrow> 0) = sameBase P ?b xs"
    using snoc by simp
  have name: "resolve P (join P (join P root FILES_DIR)
                (if sameBase P ?b xs = 0 then ?b else ?b @ ''.'' @ showNat (sameBase P ?b xs))) =
              mirrorPath P root (xs @ [x]) (length xs)"
    by (simp add: mirrorPath_def mirrorName_def sameBase_def Let_def)
  have IHm: "mirrored ?st = map (mirrorPath P root xs) [0..<length xs]"
    and IHg: "mirrorsOfGuidelines ?st =
               {mirrorPath P root xs i | i. i < length xs \<and> resolve P (xs ! i) \<in> G}"
    using snoc by simp_all
  have m: "mirrored (mirrorStep P (join P root FILES_DIR) G ?st x) =
             map (mirrorPath P root (xs @ [x])) [0..<length (xs @ [x])]"
    unfolding mirrorStep_mirrored Let_def seen name IHm
    by (simp add: mirrorPath_snoc)
  have g: "mirrorsOfGuidelines (mirrorStep P (join P root FILES_DIR) G ?st x) =
             {mirrorPath P root (xs @ [x]) i | i. i < length (xs @ [x]) \<and> resolve P ((xs @ [x]) ! i) \<in> G}"
  proof -
    have old: "{mirrorPath P root (xs @ [x]) i | i. i < length xs \<and> resolve P ((xs @ [x]) ! i) \<in> G} =
               {mirrorPath P root xs i | i. i < length xs \<and> resolve P (xs ! i) \<in> G}"
      by (auto simp: mirrorPath_snoc nth_append)
    have split: "{mirrorPath P root (xs @ [x]) i | i. i < length (xs @ [x]) \<and> resolve P ((xs @ [x]) ! i) \<in> G} =
          (if resolve P x \<in> G then {mirrorPath P root (xs @ [x]) (length xs)} else {}) \<union>
          {mirrorPath P root (xs @ [x]) i | i. i < length xs \<and> resolve P ((xs @ [x]) ! i) \<in> G}"
      using image_below_Suc [of "mirrorPath P root (xs @ [x])" "length xs"
                                "\<lambda>i. resolve P ((xs @ [x]) ! i) \<in> G"]
      by simp
    have lastm: "last (mirrored (mirrorStep P (join P root FILES_DIR) G ?st x)) =
                 mirrorPath P root (xs @ [x]) (length xs)"
      unfolding m by simp
    show ?thesis
      unfolding split old mirrorStep_guidelines lastm IHg by simp
  qed
  have c: "nameCounts (mirrorStep P (join P root FILES_DIR) G ?st x) =
             (\<lambda>b. if sameBase P b (xs @ [x]) = 0 then None else Some (sameBase P b (xs @ [x])))"
    unfolding mirrorStep_nameCounts seen using snoc
    by (auto simp: sameBase_def fun_eq_iff)
  have destination: "join P (join P root FILES_DIR)
                (if sameBase P ?b xs = 0 then ?b else ?b @ ''.'' @ showNat (sameBase P ?b xs)) =
              join P (join P root FILES_DIR) (mirrorName P (xs @ [x]) (length xs))"
    by (simp add: mirrorName_def sameBase_def Let_def)
  have IHk: "copies ?st =
      map (\<lambda>i. CopyFile (resolve P (xs ! i))
                       (join P (join P root FILES_DIR) (mirrorName P xs i))) [0..<length xs]"
    using snoc by simp
  have k: "copies (mirrorStep P (join P root FILES_DIR) G ?st x) =
      map (\<lambda>i. CopyFile (resolve P ((xs @ [x]) ! i))
                       (join P (join P root FILES_DIR) (mirrorName P (xs @ [x]) i)))
          [0..<length (xs @ [x])]"
    unfolding mirrorStep_copies Let_def seen destination IHk
    by (simp add: mirrorName_snoc nth_append)
  show ?case using m g c k by simp
qed

text \<open>A guideline file and a plain file: each is rendered in one list only.\<close>

theorem preread_lists_disjoint_witness:
  "prereadLists posix \<lparr> prompt = ''p'', attachments = None, guideline_patterns = Some [''.instructions.md''],
       signalAborted = None \<rparr> (Some [''/w/python.instructions.md'', ''main.py'']) None =
     ([''/w/python.instructions.md''], [''/work/main.py'']) \<and>
   set [''/w/python.instructions.md''] \<inter> set [''/work/main.py''] = {}"
  using preread_lists_disjoint [of posix "\<lparr> prompt = ''p'', attachments = None,
       guideline_patterns = Some [''.instructions.md''], signalAborted = None \<rparr>"
       "Some [''/w/python.instructions.md'', ''main.py'']" None]
  by (simp add: prereadLists_def collectGuidelineFiles_def collectAttachmentFiles_def
      guidelineStep_def setIfAbsent_def posix_def endsWith_def forwardSlashes_def)

text \<open>
  Claim C5. For every non-empty attachment list, \<^verbatim>\<open>mirrorAttachments\<close> returns one
  mirrored absolute path per attachment, in the order of the input; the \<open>i\<close>-th
  attachment is copied to, and listed under, the \<^verbatim>\<open>files\<close> directory of the workspace
  with the name \<open>mirrorName\<close> gives it: its base name when no earlier attachment of
  the list has that base name, and the base name with the suffix \<open>.k\<close> when \<open>k\<close>
  earlier attachments have it; and the returned guideline mirrors are exactly the
  mirrored paths of the attachments whose canonical path is in the guideline originals.
\<close>

theorem mirrorAttachments_names:
  assumes "atts \<noteq> []"
  shows "mirroredAttachments (mirrorAttachments P (Some atts) root G) =
           Some (map (mirrorPath P root atts) [0..<length atts]) \<and>
         guidelineMirrors (mirrorAttachments P (Some atts) root G) =
           {mirrorPath P root atts i | i. i < length atts \<and> resolve P (atts ! i) \<in> G} \<and>
         mirrorOps (mirrorAttachments P (Some atts) root G) =
           MkdirRecursive (join P root FILES_DIR) #
           map (\<lambda>i. CopyFile (resolve P (atts ! i))
                            (join P (join P root FILES_DIR) (mirrorName P atts i)))
               [0..<length atts]"
  using assms mirror_fold [of P root G atts]
  by (simp add: mirrorAttachments_def Let_def)

lemma posix_example_names:
  "mirrorPath posix ''/tmp/w'' [''/a/x.md'', ''/b/x.md'', ''y.md'', ''/d/x.md''] 0 =
     ''/tmp/w/files/x.md'' \<and>
   mirrorPath posix ''/tmp/w'' [''/a/x.md'', ''/b/x.md'', ''y.md'', ''/d/x.md''] (Suc 0) =
     ''/tmp/w/files/x.md.1'' \<and>
   mirrorPath posix ''/tmp/w'' [''/a/x.md'', ''/b/x.md'', ''y.md'', ''/d/x.md''] (Suc (Suc 0)) =
     ''/tmp/w/files/y.md'' \<and>
   mirrorPath posix ''/tmp/w'' [''/a/x.md'', ''/b/x.md'', ''y.md'', ''/d/x.md''] (Suc (Suc (Suc 0))) =
     ''/tmp/w/files/x.md.2''"
  by code_simp

lemma setcompr_below:
  "{f i | i. i < n \<and> Q i} = set (map f (filter Q [0..<n]))"
  by auto

text \<open>Three attachments share the base name \<^verbatim>\<open>x.md\<close>; two of the four are
  guideline originals.\<close>

theorem mirrorAttachments_names_witness:
  "[''/a/x.md'', ''/b/x.md'', ''y.md'', ''/d/x.md''] \<noteq> [] \<and>
   mirroredAttachments (mirrorAttachments posix (Some [''/a/x.md'', ''/b/x.md'', ''y.md'', ''/d/x.md''])
       ''/tmp/w'' {''/b/x.md'', ''/work/y.md''}) =
     Some [''/tmp/w/files/x.md'', ''/tmp/w/files/x.md.1'', ''/tmp/w/files/y.md'', ''/tmp/w/files/x.md.2''] \<and>
   guidelineMirrors (mirrorAttachments posix (Some [''/a/x.md'', ''/b/x.md'', ''y.md'', ''/d/x.md''])
       ''/tmp/w'' {''/b/x.md'', ''/work/y.md''}) =
     {''/tmp/w/files/x.md.1'', ''/tmp/w/files/y.md''}"
proof -
  let ?atts = "[''/a/x.md'', ''/b/x.md'', ''y.md'', ''/d/x.md'']"
  have ne: "?atts \<noteq> []" by simp
  have names: "map (mirrorPath posix ''/tmp/w'' ?atts) [0..<length ?atts] =
     [''/tmp/w/files/x.md'', ''/tmp/w/files/x.md.1'', ''/tmp/w/files/y.md'', ''/tmp/w/files/x.md.2'']"
    using posix_example_names by (simp add: upt_rec)
  have sel: "filter (\<lambda>i. resolve posix (?atts ! i) \<in> {''/b/x.md'', ''/work/y.md''}) [0..<length ?atts] = [Suc 0, Suc (Suc 0)]"
    by (simp add: posix_def upt_rec)
  have "{mirrorPath posix ''/tmp/w'' ?atts i | i. i < length ?atts \<and>
            resolve posix (?atts ! i) \<in> {''/b/x.md'', ''/work/y.md''}} =
        {''/tmp/w/files/x.md.1'', ''/tmp/w/files/y.md''}"
    unfolding setcompr_below sel using names by (simp add: upt_rec)
  then show ?thesis
    using mirrorAttachments_names [OF ne, of posix "''/tmp/w''" "{''/b/x.md'', ''/work/y.md''}"] names
    by simp
qed

lemma posix_resolve_idem: "resolve posix (resolve posix p) = resolve posix p"
  by (simp add: posix_def)

text \<open>
  The classifier on the mirrored paths, with the guideline mirrors as overrides: the
  mirrored copy of an attachment whose canonical path is among the guideline files of
  the original list is among the guideline files of the mirrored list.
\<close>

lemma mirrored_guideline_classified:
  assumes idem: "\<And>p. resolve P (resolve P p) = resolve P p"
    and i: "i < length atts"
    and before: "resolve P (atts ! i) \<in> set (collectGuidelineFiles P (Some atts) pats ov)"
  shows "(let originalGuidelines = set (map (resolve P) (collectGuidelineFiles P (Some atts) pats ov));
              mirror = mirrorAttachments P (Some atts) root originalGuidelines
          in the (mirroredAttachments mirror) ! i
             \<in> set (collectGuidelineFiles P (mirroredAttachments mirror) pats
                      (Some (guidelineMirrors mirror))))"
proof -
  let ?G = "set (map (resolve P) (collectGuidelineFiles P (Some atts) pats ov))"
  let ?m = "mirrorAttachments P (Some atts) root ?G"
  let ?d = "mirrorPath P root atts i"
  have ne: "atts \<noteq> []" using i by auto
  note names = mirror_fold [of P root ?G atts]
  have mirrored_eq: "mirroredAttachments ?m = Some (map (mirrorPath P root atts) [0..<length atts])"
    using names ne by (simp add: mirrorAttachments_def Let_def)
  have guides_eq: "guidelineMirrors ?m =
      {mirrorPath P root atts i | i. i < length atts \<and> resolve P (atts ! i) \<in> ?G}"
    using names ne by (simp add: mirrorAttachments_def Let_def)
  have nth: "the (mirroredAttachments ?m) ! i = ?d"
    unfolding mirrored_eq using i by simp
  have "resolve P (atts ! i) \<in> ?G"
    using before idem by (metis (no_types, lifting) image_eqI set_map)
  then have inG: "?d \<in> guidelineMirrors ?m"
    unfolding guides_eq using i by blast
  have fixed: "resolve P ?d = ?d"
    by (simp add: mirrorPath_def idem)
  have "?d \<in> set (map (mirrorPath P root atts) [0..<length atts])"
    using i by simp
  moreover have "classifiedGuideline P pats (Some (guidelineMirrors ?m)) ?d"
    using inG fixed by (simp add: classifiedGuideline_def)
  ultimately have "resolve P ?d \<in>
      set (collectGuidelineFiles P (Some (map (mirrorPath P root atts) [0..<length atts])) pats
             (Some (guidelineMirrors ?m)))"
    unfolding set_collectGuidelineFiles by blast
  then have "the (mirroredAttachments ?m) ! i
      \<in> set (collectGuidelineFiles P (mirroredAttachments ?m) pats (Some (guidelineMirrors ?m)))"
    unfolding nth unfolding mirrored_eq fixed .
  then show ?thesis unfolding Let_def .
qed

lemma set_normalize_fold:
  "set (foldl (\<lambda>deduped attachment. setIfAbsent deduped (resolve P attachment)) acc xs) =
     set acc \<union> resolve P ` set xs"
  by (induction xs arbitrary: acc) (auto simp: set_setIfAbsent)

lemma normalizeAttachments_nonempty:
  assumes "normalizeAttachments P given = Some atts"
  shows "atts \<noteq> []"
proof -
  from assms obtain xs where given: "given = Some xs" and ne: "xs \<noteq> []"
    and atts: "atts = foldl (\<lambda>deduped attachment. setIfAbsent deduped (resolve P attachment)) [] xs"
    by (cases given) (auto simp: normalizeAttachments_def split: if_splits)
  have "set atts = resolve P ` set xs" unfolding atts set_normalize_fold by simp
  with ne show ?thesis by auto
qed

lemma set_collectAttachmentFiles:
  "set (collectAttachmentFiles P (Some as)) = resolve P ` set as"
  by (auto simp: collectAttachmentFiles_def set_normalize_fold)

lemma buildPromptDocument_lists:
  "buildPromptDocument P request atts options =
     promptDocumentOf P request (fst (prereadLists P request atts options))
       (snd (prereadLists P request atts options))"
  by (simp add: buildPromptDocument_def promptDocumentOf_def Let_def)

lemma invokeInWorkspace_ops:
  "snd (invokeInWorkspace P W runCodex JSON_parse config this request atts G root) =
     mirrorOps (mirrorAttachments P atts root G) @
       [WriteFile (join P root PROMPT_FILENAME)
          (buildPromptDocument P request (mirroredAttachments (mirrorAttachments P atts root G))
             (Some \<lparr> guidelinePatterns = guideline_patterns request,
                     guidelineOverrides = Some (guidelineMirrors (mirrorAttachments P atts root G)) \<rparr>))]"
  by (simp add: invokeInWorkspace_def Let_def split: sum.splits)

lemma invoke_ops:
  assumes "entersInvoke request"
    and "fst (ensureEnvironmentReady P W config this) = Inr ()"
  shows "snd (snd (invoke P W runCodex JSON_parse config this request)) =
     Mkdtemp (mkdtemp W (join P (tmpdir W) WORKSPACE_PREFIX)) #
     snd (invokeInWorkspace P W runCodex JSON_parse config
            (snd (ensureEnvironmentReady P W config this)) request
            (normalizeAttachments P (attachments request))
            (set (map (resolve P)
                    (collectGuidelineFiles P (normalizeAttachments P (attachments request))
                       (guideline_patterns request) None)))
            (mkdtemp W (join P (tmpdir W) WORKSPACE_PREFIX))) @
     [RmRecursive (mkdtemp W (join P (tmpdir W) WORKSPACE_PREFIX))]"
  using assms
  by (cases "ensureEnvironmentReady P W config this")
     (simp add: invoke_def entersInvoke_def Let_def)

lemma prereadLists_own_patterns:
  "prereadLists P request atts
     (Some \<lparr> guidelinePatterns = guideline_patterns request, guidelineOverrides = Some ov \<rparr>) =
   (collectGuidelineFiles P atts (guideline_patterns request) (Some ov),
    filter (\<lambda>file. file \<notin> set (collectGuidelineFiles P atts (guideline_patterns request) (Some ov)))
      (collectAttachmentFiles P atts))"
  by (cases "guideline_patterns request") (simp_all add: prereadLists_def Let_def)

text \<open>
  Claim C4. \<^verbatim>\<open>path.resolve\<close> returns a canonical path, which it leaves unchanged
  when applied again; this is the one fact about the platform the property needs.
  \<^verbatim>\<open>invoke\<close> classifies the attachments before mirroring with the request's patterns
  and no overrides, hands the canonical paths of the guideline files to
  \<^verbatim>\<open>mirrorAttachments\<close>, and hands the guideline mirrors it returns to
  \<^verbatim>\<open>buildPromptDocument\<close> as overrides. So, for every request that enters
  \<^verbatim>\<open>invoke\<close> with the environment ready and has attachments, whatever its
  attachments and patterns are and whatever the runner does: \<^verbatim>\<open>invoke\<close> creates the
  workspace, copies each attachment to its mirrored path, writes the prompt document and
  removes the workspace; the document it writes is the one for a list of guideline files
  and a list of other attachment files that share no path and together are the mirrored
  paths; and every attachment classified as a guideline file before mirroring, by the
  match of its canonical path with the patterns, has its mirrored copy in the list of
  guideline files, and not in the other.
\<close>

theorem guideline_survives_mirroring:
  assumes idem: "\<And>p. resolve P (resolve P p) = resolve P p"
    and enters: "entersInvoke request"
    and ready: "fst (ensureEnvironmentReady P W config this) = Inr ()"
    and normalized: "normalizeAttachments P (attachments request) = Some atts"
  shows "(let workspaceRoot = mkdtemp W (join P (tmpdir W) WORKSPACE_PREFIX)
          in \<exists>guidelineFiles plainFiles.
               snd (snd (invoke P W runCodex JSON_parse config this request)) =
                 Mkdtemp workspaceRoot #
                 MkdirRecursive (join P workspaceRoot FILES_DIR) #
                 map (\<lambda>i. CopyFile (resolve P (atts ! i))
                                  (join P (join P workspaceRoot FILES_DIR) (mirrorName P atts i)))
                     [0..<length atts] @
                 [WriteFile (join P workspaceRoot PROMPT_FILENAME)
                    (promptDocumentOf P request guidelineFiles plainFiles),
                  RmRecursive workspaceRoot] \<and>
               set guidelineFiles \<inter> set plainFiles = {} \<and>
               set guidelineFiles \<union> set plainFiles =
                 set (map (mirrorPath P workspaceRoot atts) [0..<length atts]) \<and>
               (\<forall>i<length atts.
                  classifiedGuideline P (guideline_patterns request) None (atts ! i) \<longrightarrow>
                  mirrorPath P workspaceRoot atts i \<in> set guidelineFiles \<and>
                  mirrorPath P workspaceRoot atts i \<notin> set plainFiles))"
proof -
  let ?root = "mkdtemp W (join P (tmpdir W) WORKSPACE_PREFIX)"
  let ?pats = "guideline_patterns request"
  let ?G = "set (map (resolve P) (collectGuidelineFiles P (Some atts) ?pats None))"
  let ?m = "mirrorAttachments P (Some atts) ?root ?G"
  let ?mp = "map (mirrorPath P ?root atts) [0..<length atts]"
  let ?opts = "Some \<lparr> guidelinePatterns = ?pats, guidelineOverrides = Some (guidelineMirrors ?m) \<rparr>"
  let ?gl = "fst (prereadLists P request (mirroredAttachments ?m) ?opts)"
  let ?pl = "snd (prereadLists P request (mirroredAttachments ?m) ?opts)"
  have ne: "atts \<noteq> []" using normalized by (rule normalizeAttachments_nonempty)
  note names = mirror_fold [of P ?root ?G atts]
  have mirrored_eq: "mirroredAttachments ?m = Some ?mp"
    using names ne by (simp add: mirrorAttachments_def Let_def)
  have ops_eq: "mirrorOps ?m =
      MkdirRecursive (join P ?root FILES_DIR) #
      map (\<lambda>i. CopyFile (resolve P (atts ! i))
                       (join P (join P ?root FILES_DIR) (mirrorName P atts i))) [0..<length atts]"
    using names ne by (simp add: mirrorAttachments_def Let_def)
  have written: "snd (snd (invoke P W runCodex JSON_parse config this request)) =
      Mkdtemp ?root #
      MkdirRecursive (join P ?root FILES_DIR) #
      map (\<lambda>i. CopyFile (resolve P (atts ! i))
                       (join P (join P ?root FILES_DIR) (mirrorName P atts i))) [0..<length atts] @
      [WriteFile (join P ?root PROMPT_FILENAME) (promptDocumentOf P request ?gl ?pl),
       RmRecursive ?root]"
    unfolding invoke_ops [OF enters ready] normalized invokeInWorkspace_ops ops_eq
      buildPromptDocument_lists
    by simp
  have gl: "?gl = collectGuidelineFiles P (Some ?mp) ?pats (Some (guidelineMirrors ?m))"
    and pl: "?pl = filter (\<lambda>file. file \<notin> set ?gl) (collectAttachmentFiles P (Some ?mp))"
    unfolding prereadLists_own_patterns mirrored_eq by simp_all
  have fixed: "resolve P (mirrorPath P ?root atts i) = mirrorPath P ?root atts i" for i
    by (simp add: mirrorPath_def idem)
  have "resolve P ` set ?mp = id ` set ?mp"
    using fixed by (intro image_cong) auto
  then have fixed_all: "resolve P ` set ?mp = set ?mp"
    by simp
  have disjoint: "set ?gl \<inter> set ?pl = {}"
    unfolding pl by auto
  have "set ?gl \<subseteq> resolve P ` set ?mp"
    unfolding gl set_collectGuidelineFiles by auto
  then have "set ?gl \<union> set ?pl = resolve P ` set ?mp"
    unfolding pl by (auto simp: set_collectAttachmentFiles)
  then have together: "set ?gl \<union> set ?pl = set ?mp"
    unfolding fixed_all .
  have survives: "mirrorPath P ?root atts i \<in> set ?gl \<and> mirrorPath P ?root atts i \<notin> set ?pl"
    if i: "i < length atts" and before: "classifiedGuideline P ?pats None (atts ! i)" for i
  proof -
    have "atts ! i \<in> set atts" using i by simp
    with before have "resolve P (atts ! i) \<in> set (collectGuidelineFiles P (Some atts) ?pats None)"
      unfolding set_collectGuidelineFiles by blast
    from mirrored_guideline_classified [of P i atts ?pats None ?root, OF idem i this]
    have classified: "the (mirroredAttachments ?m) ! i \<in>
        set (collectGuidelineFiles P (mirroredAttachments ?m) ?pats (Some (guidelineMirrors ?m)))"
      unfolding Let_def .
    have nth: "the (mirroredAttachments ?m) ! i = mirrorPath P ?root atts i"
      unfolding mirrored_eq using i by simp
    from classified have "mirrorPath P ?root atts i \<in>
        set (collectGuidelineFiles P (Some ?mp) ?pats (Some (guidelineMirrors ?m)))"
      unfolding nth unfolding mirrored_eq .
    then have "mirrorPath P ?root atts i \<in> set ?gl"
      unfolding gl .
    then show ?thesis using disjoint by blast
  qed
  have each: "\<forall>i<length atts.
      classifiedGuideline P ?pats None (atts ! i) \<longrightarrow>
      mirrorPath P ?root atts i \<in> set ?gl \<and> mirrorPath P ?root atts i \<notin> set ?pl"
    using survives by blast
  show ?thesis
    unfolding Let_def
    by (rule exI [of _ ?gl], rule exI [of _ ?pl])
       (rule conjI [OF written conjI [OF disjoint conjI [OF together each]]])
qed

lemma example_workspace:
  "mkdtemp readyWorld (join posix (tmpdir readyWorld) WORKSPACE_PREFIX) = ''/tmp/agentv-codex-a1b2c3''"
  by code_simp

lemma example_mirrors:
  "join posix ''/tmp/agentv-codex-a1b2c3'' FILES_DIR = ''/tmp/agentv-codex-a1b2c3/files'' \<and>
   join posix ''/tmp/agentv-codex-a1b2c3'' PROMPT_FILENAME = ''/tmp/agentv-codex-a1b2c3/prompt.md'' \<and>
   resolve posix ''/fixtures/prompts/style.md'' = ''/fixtures/prompts/style.md'' \<and>
   resolve posix ''/fixtures/src/main.py'' = ''/fixtures/src/main.py'' \<and>
   join posix ''/tmp/agentv-codex-a1b2c3/files''
     (mirrorName posix [''/fixtures/prompts/style.md'', ''/fixtures/src/main.py''] 0) =
     ''/tmp/agentv-codex-a1b2c3/files/style.md'' \<and>
   join posix ''/tmp/agentv-codex-a1b2c3/files''
     (mirrorName posix [''/fixtures/prompts/style.md'', ''/fixtures/src/main.py''] (Suc 0)) =
     ''/tmp/agentv-codex-a1b2c3/files/main.py'' \<and>
   mirrorPath posix ''/tmp/agentv-codex-a1b2c3''
     [''/fixtures/prompts/style.md'', ''/fixtures/src/main.py''] 0 =
     ''/tmp/agentv-codex-a1b2c3/files/style.md''"
  by code_simp

text \<open>
  A request whose first attachment matches the pattern by its directory, which its
  mirrored copy has not: the prompt document that \<^verbatim>\<open>invoke\<close> writes lists the copy
  among the guideline files all the same.
\<close>

theorem guideline_survives_mirroring_witness:
  "(\<forall>p. resolve posix (resolve posix p) = resolve posix p) \<and>
   entersInvoke guidelineRequest \<and>
   fst (ensureEnvironmentReady posix readyWorld exampleCodexConfig newCodexProvider) = Inr () \<and>
   normalizeAttachments posix (attachments guidelineRequest) =
     Some [''/fixtures/prompts/style.md'', ''/fixtures/src/main.py''] \<and>
   classifiedGuideline posix (guideline_patterns guidelineRequest) None ''/fixtures/prompts/style.md'' \<and>
   \<not> classifiedGuideline posix (guideline_patterns guidelineRequest) None
       ''/tmp/agentv-codex-a1b2c3/files/style.md'' \<and>
   (\<exists>guidelineFiles plainFiles.
      snd (snd (invoke posix readyWorld exampleRunner exampleParse exampleCodexConfig
                  newCodexProvider guidelineRequest)) =
        [Mkdtemp ''/tmp/agentv-codex-a1b2c3'',
         MkdirRecursive ''/tmp/agentv-codex-a1b2c3/files'',
         CopyFile ''/fixtures/prompts/style.md'' ''/tmp/agentv-codex-a1b2c3/files/style.md'',
         CopyFile ''/fixtures/src/main.py'' ''/tmp/agentv-codex-a1b2c3/files/main.py'',
         WriteFile ''/tmp/agentv-codex-a1b2c3/prompt.md''
           (promptDocumentOf posix guidelineRequest guidelineFiles plainFiles),
         RmRecursive ''/tmp/agentv-codex-a1b2c3''] \<and>
      ''/tmp/agentv-codex-a1b2c3/files/style.md'' \<in> set guidelineFiles \<and>
      ''/tmp/agentv-codex-a1b2c3/files/style.md'' \<notin> set plainFiles) \<and>
   snd (snd (invoke posix readyWorld exampleRunner exampleParse exampleCodexConfig
               newCodexProvider guidelineRequest)) =
     [Mkdtemp ''/tmp/agentv-codex-a1b2c3'',
      MkdirRecursive ''/tmp/agentv-codex-a1b2c3/files'',
      CopyFile ''/fixtures/prompts/style.md'' ''/tmp/agentv-codex-a1b2c3/files/style.md'',
      CopyFile ''/fixtures/src/main.py'' ''/tmp/agentv-codex-a1b2c3/files/main.py'',
      WriteFile ''/tmp/agentv-codex-a1b2c3/prompt.md''
        ''Read all guideline files:\<newline>* [style.md](file:///tmp/agentv-codex-a1b2c3/files/style.md).\<newline>Read all attachment files:\<newline>* [main.py](file:///tmp/agentv-codex-a1b2c3/files/main.py).\<newline>If any file is missing, fail with ERROR: missing-file <filename> and stop.\<newline>Then apply system_instructions on the user query below.\<newline>\<newline>[[ ## user_query ## ]]\<newline>\<newline>Hello'',
      RmRecursive ''/tmp/agentv-codex-a1b2c3'']"
proof -
  let ?atts = "[''/fixtures/prompts/style.md'', ''/fixtures/src/main.py'']"
  let ?ops = "snd (snd (invoke posix readyWorld exampleRunner exampleParse exampleCodexConfig
                  newCodexProvider guidelineRequest))"
  have h1: "\<And>p. resolve posix (resolve posix p) = resolve posix p"
    by (rule posix_resolve_idem)
  have h2: "entersInvoke guidelineRequest" by code_simp
  have h3: "fst (ensureEnvironmentReady posix readyWorld exampleCodexConfig newCodexProvider) = Inr ()"
    by code_simp
  have h4: "normalizeAttachments posix (attachments guidelineRequest) = Some ?atts"
    by code_simp
  have before: "classifiedGuideline posix (guideline_patterns guidelineRequest) None
      ''/fixtures/prompts/style.md''"
    by code_simp
  have after: "\<not> classifiedGuideline posix (guideline_patterns guidelineRequest) None
      ''/tmp/agentv-codex-a1b2c3/files/style.md''"
    by code_simp
  have written: "?ops =
     [Mkdtemp ''/tmp/agentv-codex-a1b2c3'',
      MkdirRecursive ''/tmp/agentv-codex-a1b2c3/files'',
      CopyFile ''/fixtures/prompts/style.md'' ''/tmp/agentv-codex-a1b2c3/files/style.md'',
      CopyFile ''/fixtures/src/main.py'' ''/tmp/agentv-codex-a1b2c3/files/main.py'',
      WriteFile ''/tmp/agentv-codex-a1b2c3/prompt.md''
        ''Read all guideline files:\<newline>* [style.md](file:///tmp/agentv-codex-a1b2c3/files/style.md).\<newline>Read all attachment files:\<newline>* [main.py](file:///tmp/agentv-codex-a1b2c3/files/main.py).\<newline>If any file is missing, fail with ERROR: missing-file <filename> and stop.\<newline>Then apply system_instructions on the user query below.\<newline>\<newline>[[ ## user_query ## ]]\<newline>\<newline>Hello'',
      RmRecursive ''/tmp/agentv-codex-a1b2c3'']"
    by code_simp
  note general = guideline_survives_mirroring [where P = posix and request = guidelineRequest
      and W = readyWorld and config = exampleCodexConfig and this = newCodexProvider
      and atts = ?atts and runCodex = exampleRunner and JSON_parse = exampleParse,
      OF h1 h2 h3 h4, unfolded Let_def example_workspace]
  from general obtain guidelineFiles plainFiles where
    ops: "?ops =
        Mkdtemp ''/tmp/agentv-codex-a1b2c3'' #
        MkdirRecursive (join posix ''/tmp/agentv-codex-a1b2c3'' FILES_DIR) #
        map (\<lambda>i. CopyFile (resolve posix (?atts ! i))
                         (join posix (join posix ''/tmp/agentv-codex-a1b2c3'' FILES_DIR)
                            (mirrorName posix ?atts i)))
            [0..<length ?atts] @
        [WriteFile (join posix ''/tmp/agentv-codex-a1b2c3'' PROMPT_FILENAME)
           (promptDocumentOf posix guidelineRequest guidelineFiles plainFiles),
         RmRecursive ''/tmp/agentv-codex-a1b2c3'']"
    and each: "\<forall>i<length ?atts.
        classifiedGuideline posix (guideline_patterns guidelineRequest) None (?atts ! i) \<longrightarrow>
        mirrorPath posix ''/tmp/agentv-codex-a1b2c3'' ?atts i \<in> set guidelineFiles \<and>
        mirrorPath posix ''/tmp/agentv-codex-a1b2c3'' ?atts i \<notin> set plainFiles"
    by blast
  have ops': "?ops =
        [Mkdtemp ''/tmp/agentv-codex-a1b2c3'',
         MkdirRecursive ''/tmp/agentv-codex-a1b2c3/files'',
         CopyFile ''/fixtures/prompts/style.md'' ''/tmp/agentv-codex-a1b2c3/files/style.md'',
         CopyFile ''/fixtures/src/main.py'' ''/tmp/agentv-codex-a1b2c3/files/main.py'',
         WriteFile ''/tmp/agentv-codex-a1b2c3/prompt.md''
           (promptDocumentOf posix guidelineRequest guidelineFiles plainFiles),
         RmRecursive ''/tmp/agentv-codex-a1b2c3'']"
    unfolding ops using example_mirrors by (simp add: upt_rec)
  have first: "''/tmp/agentv-codex-a1b2c3/files/style.md'' \<in> set guidelineFiles \<and>
      ''/tmp/agentv-codex-a1b2c3/files/style.md'' \<notin> set plainFiles"
    using each [rule_format, of 0] before example_mirrors by simp
  have listed: "\<exists>guidelineFiles plainFiles.
      ?ops =
        [Mkdtemp ''/tmp/agentv-codex-a1b2c3'',
         MkdirRecursive ''/tmp/agentv-codex-a1b2c3/files'',
         CopyFile ''/fixtures/prompts/style.md'' ''/tmp/agentv-codex-a1b2c3/files/style.md'',
         CopyFile ''/fixtures/src/main.py'' ''/tmp/agentv-codex-a1b2c3/files/main.py'',
         WriteFile ''/tmp/agentv-codex-a1b2c3/prompt.md''
           (promptDocumentOf posix guidelineRequest guidelineFiles plainFiles),
         RmRecursive ''/tmp/agentv-codex-a1b2c3''] \<and>
      ''/tmp/agentv-codex-a1b2c3/files/style.md'' \<in> set guidelineFiles \<and>
      ''/tmp/agentv-codex-a1b2c3/files/style.md'' \<notin> set plainFiles"
    by (rule exI [of _ guidelineFiles], rule exI [of _ plainFiles]) (rule conjI [OF ops' first])
  from h1 have all: "\<forall>p. resolve posix (resolve posix p) = resolve posix p" ..
  show ?thesis
    by (rule conjI [OF all conjI [OF h2 conjI [OF h3 conjI [OF h4 conjI [OF before
          conjI [OF after conjI [OF listed written]]]]]]])
qed

section \<open>Properties of the batch dispatch\<close>

lemma readResponses_read:
  "map rf files = map Inr texts \<Longrightarrow>
   \<exists>rs. readResponses rf sess nr comb k files = (Inr rs, files) \<and>
        length rs = length files \<and>
        (\<forall>j<length files. rs ! j = responseAt sess nr comb k files texts j)"
proof (induction files arbitrary: k texts)
  case Nil
  then show ?case by simp
next
  case (Cons f fs)
  from Cons.prems obtain t ts where texts: "texts = t # ts" and head: "rf f = Inr t"
    and rest: "map rf fs = map Inr ts"
    by (cases texts) auto
  from Cons.IH [OF rest, of "Suc k"] obtain rs where
    run: "readResponses rf sess nr comb (Suc k) fs = (Inr rs, fs)"
    and len: "length rs = length fs"
    and each: "\<forall>j<length fs. rs ! j = responseAt sess nr comb (Suc k) fs ts j"
    by blast
  let ?r = "\<lparr> batchText = t,
              batchRaw = \<lparr> session = sess,
                           requestAttachments = (if k < length nr then snd (nr ! k) else None),
                           allAttachments = comb,
                           responseFile = Some f \<rparr> \<rparr>"
  have step: "readResponses rf sess nr comb k (f # fs) = (Inr (?r # rs), f # fs)"
    using head run by (simp add: Let_def)
  have nth: "(?r # rs) ! j = responseAt sess nr comb k (f # fs) texts j"
    if "j < length (f # fs)" for j
  proof (cases j)
    case 0
    then show ?thesis by (simp add: responseAt_def texts)
  next
    case (Suc j')
    then have "j' < length fs" using that by simp
    with each have "rs ! j' = responseAt sess nr comb (Suc k) fs ts j'" by simp
    then show ?thesis using Suc by (simp add: responseAt_def texts)
  qed
  show ?case
    using step len nth by (intro exI [of _ "?r # rs"] conjI allI impI) simp_all
qed

lemma readResponses_rejected:
  "map rf readable = map Inr texts \<Longrightarrow> rf unreadable = Inl rejection \<Longrightarrow>
   readResponses rf sess nr comb k (readable @ unreadable # rest) =
     (Inl rejection, readable @ [unreadable])"
proof (induction readable arbitrary: k texts)
  case Nil
  then show ?case by simp
next
  case (Cons f fs)
  from Cons.prems(1) obtain t ts where head: "rf f = Inr t" and rest: "map rf fs = map Inr ts"
    by (cases texts) auto
  from Cons.IH [OF rest Cons.prems(2), of "Suc k"] head show ?case
    by (simp add: Let_def)
qed

lemma normalizeRequests_nth:
  "i < length requests \<Longrightarrow>
   snd (normalizeRequests P requests ! i) = normalizeAttachments P (attachments (requests ! i))"
  by (simp add: normalizeRequests_def)

lemma length_normalizeRequests: "length (normalizeRequests P requests) = length requests"
  by (simp add: normalizeRequests_def)

text \<open>
  Claim C1, as the code has it. For a batch of \<open>N \<ge> 1\<close> requests with dry-run
  disabled: when the session returns a list of response references whose length
  differs from \<open>N\<close>, \<^verbatim>\<open>invokeBatch\<close> fails, returns no response and reads no file
  (with the count-mismatch error when the session's exit code is 0, with the session's
  failure otherwise); when the session's exit code is 0, the list has length \<open>N\<close> and
  every reference of the list can be read, it returns exactly \<open>N\<close> responses in
  request order, the \<open>i\<close>-th with the text read from the \<open>i\<close>-th response reference
  and, in its diagnostic metadata, that reference and the \<open>i\<close>-th request's own
  normalized attachments; when the session's exit code is 0, the list has length \<open>N\<close>
  and the read of one of its references is rejected, it fails with the rejection of the
  first such read, returns no response and reads no later reference.
\<close>

theorem invokeBatch_count_check:
  assumes "requests \<noteq> []" and "\<not> dryRun config"
  shows
   "(\<forall>files. responseFiles (dispatchBatchAgent (batchCall P config requests)) = Some files \<and>
             length files \<noteq> length requests \<longrightarrow>
       invokeBatch P dispatchBatchAgent readFile config requests =
         (Inl (if sessionExitCode (dispatchBatchAgent (batchCall P config requests)) \<noteq> 0
               then sessionFailure (dispatchBatchAgent (batchCall P config requests))
               else batchCountMismatch (length files) (length requests)), [])) \<and>
    (\<forall>files texts.
        sessionExitCode (dispatchBatchAgent (batchCall P config requests)) = 0 \<and>
        responseFiles (dispatchBatchAgent (batchCall P config requests)) = Some files \<and>
        length files = length requests \<and>
        map readFile files = map Inr texts \<longrightarrow>
       (\<exists>responses.
          invokeBatch P dispatchBatchAgent readFile config requests = (Inr responses, files) \<and>
          length responses = length requests \<and>
          (\<forall>i<length requests.
             batchText (responses ! i) = texts ! i \<and>
             responseFile (batchRaw (responses ! i)) = Some (files ! i) \<and>
             requestAttachments (batchRaw (responses ! i)) =
               normalizeAttachments P (attachments (requests ! i))))) \<and>
    (\<forall>readable texts unreadable rest rejection.
        sessionExitCode (dispatchBatchAgent (batchCall P config requests)) = 0 \<and>
        responseFiles (dispatchBatchAgent (batchCall P config requests)) =
          Some (readable @ unreadable # rest) \<and>
        length (readable @ unreadable # rest) = length requests \<and>
        map readFile readable = map Inr texts \<and>
        readFile unreadable = Inl rejection \<longrightarrow>
       invokeBatch P dispatchBatchAgent readFile config requests =
         (Inl rejection, readable @ [unreadable]))"
proof -
  let ?sess = "dispatchBatchAgent (batchCall P config requests)"
  let ?nr = "normalizeRequests P requests"
  let ?comb = "mergeAttachments P (map snd ?nr)"
  have mismatch: "invokeBatch P dispatchBatchAgent readFile config requests =
         (Inl (if sessionExitCode ?sess \<noteq> 0 then sessionFailure ?sess
               else batchCountMismatch (length files) (length requests)), [])"
    if "responseFiles ?sess = Some files \<and> length files \<noteq> length requests" for files
    using assms that by (simp add: invokeBatch_def Let_def)
  have reads: "invokeBatch P dispatchBatchAgent readFile config requests =
         readResponses readFile ?sess ?nr ?comb 0 files"
    if "sessionExitCode ?sess = 0" and "responseFiles ?sess = Some files"
      and "length files = length requests" for files
    using assms that by (simp add: invokeBatch_def Let_def)
  have answered: "\<exists>responses.
          invokeBatch P dispatchBatchAgent readFile config requests = (Inr responses, files) \<and>
          length responses = length requests \<and>
          (\<forall>i<length requests.
             batchText (responses ! i) = texts ! i \<and>
             responseFile (batchRaw (responses ! i)) = Some (files ! i) \<and>
             requestAttachments (batchRaw (responses ! i)) =
               normalizeAttachments P (attachments (requests ! i)))"
    if ok: "sessionExitCode ?sess = 0 \<and> responseFiles ?sess = Some files \<and>
        length files = length requests \<and> map readFile files = map Inr texts" for files texts
  proof -
    from ok have all_read: "map readFile files = map Inr texts" by simp
    from readResponses_read [OF all_read, of ?sess ?nr ?comb 0] obtain rs where
      run: "readResponses readFile ?sess ?nr ?comb 0 files = (Inr rs, files)"
      and len: "length rs = length files"
      and each: "\<forall>j<length files. rs ! j = responseAt ?sess ?nr ?comb 0 files texts j"
      by blast
    have inv: "invokeBatch P dispatchBatchAgent readFile config requests = (Inr rs, files)"
      using reads [of files] ok run by simp
    have len': "length rs = length requests" using len ok by simp
    have nth: "batchText (rs ! i) = texts ! i \<and>
          responseFile (batchRaw (rs ! i)) = Some (files ! i) \<and>
          requestAttachments (batchRaw (rs ! i)) =
            normalizeAttachments P (attachments (requests ! i))"
      if "i < length requests" for i
    proof -
      have "i < length files" using that ok by simp
      with each have "rs ! i = responseAt ?sess ?nr ?comb 0 files texts i" by simp
      then show ?thesis
        using that by (simp add: responseAt_def length_normalizeRequests normalizeRequests_nth)
    qed
    show ?thesis
      using inv len' nth by (intro exI [of _ rs] conjI allI impI) simp_all
  qed
  have rejected: "invokeBatch P dispatchBatchAgent readFile config requests =
         (Inl rejection, readable @ [unreadable])"
    if bad: "sessionExitCode ?sess = 0 \<and>
        responseFiles ?sess = Some (readable @ unreadable # rest) \<and>
        length (readable @ unreadable # rest) = length requests \<and>
        map readFile readable = map Inr texts \<and>
        readFile unreadable = Inl rejection" for readable texts unreadable rest rejection
  proof -
    from bad have "invokeBatch P dispatchBatchAgent readFile config requests =
         readResponses readFile ?sess ?nr ?comb 0 (readable @ unreadable # rest)"
      using reads [of "readable @ unreadable # rest"] by simp
    also have "\<dots> = (Inl rejection, readable @ [unreadable])"
      using bad by (intro readResponses_rejected [of readFile readable texts]) simp_all
    finally show ?thesis .
  qed
  show ?thesis
    using mismatch answered rejected by (intro conjI allI impI)
qed

text \<open>
  Claim C10, as the code has it. In dry-run mode, when the session's exit code is 0 and
  it carries a list of response references (or the batch is empty), \<^verbatim>\<open>invokeBatch\<close>
  returns exactly one response per request, each with empty text and the request's own
  normalized attachments, and reads no response file; the length of the session's list
  plays no part, so a list longer or shorter than the batch does not fail it.
\<close>

theorem invokeBatch_dry_run:
  assumes "dryRun config"
    and "requests = [] \<or>
         (sessionExitCode (dispatchBatchAgent (batchCall P config requests)) = 0 \<and>
          responseFiles (dispatchBatchAgent (batchCall P config requests)) \<noteq> None)"
  shows "\<exists>responses.
           invokeBatch P dispatchBatchAgent readFile config requests = (Inr responses, []) \<and>
           length responses = length requests \<and>
           (\<forall>i<length requests.
              batchText (responses ! i) = [] \<and>
              requestAttachments (batchRaw (responses ! i)) =
                normalizeAttachments P (attachments (requests ! i)))"
proof (cases "requests = []")
  case True
  then show ?thesis by (simp add: invokeBatch_def)
next
  case False
  let ?sess = "dispatchBatchAgent (batchCall P config requests)"
  let ?nr = "normalizeRequests P requests"
  let ?comb = "mergeAttachments P (map snd ?nr)"
  let ?rs = "map (\<lambda>(request, atts).
                   \<lparr> batchText = [],
                     batchRaw = \<lparr> session = ?sess, requestAttachments = atts,
                                  allAttachments = ?comb, responseFile = None \<rparr> \<rparr>) ?nr"
  have run: "invokeBatch P dispatchBatchAgent readFile config requests = (Inr ?rs, [])"
    using assms False by (auto simp: invokeBatch_def Let_def)
  have "length ?rs = length requests" by (simp add: length_normalizeRequests)
  moreover have "batchText (?rs ! i) = [] \<and>
       requestAttachments (batchRaw (?rs ! i)) = normalizeAttachments P (attachments (requests ! i))"
    if "i < length requests" for i
    using that by (simp add: normalizeRequests_def)
  ultimately show ?thesis using run by blast
qed


lemma example_mismatch_message:
  "batchCountMismatch (Suc (Suc (Suc 0))) 2 =
     Error ''VS Code batch returned 3 responses for 2 requests''"
  by code_simp

lemma example_normalized:
  "normalizeAttachments posix (attachments (exampleRequests ! 0)) = Some [''/work/a.txt''] \<and>
   normalizeAttachments posix (attachments (exampleRequests ! 1)) = Some [''/work/b.txt'']"
  by (simp add: exampleRequests_def normalizeAttachments_def setIfAbsent_def posix_def)

lemma map_of_length_two: "length xs = 2 \<Longrightarrow> map f xs = [f (xs ! 0), f (xs ! Suc 0)]"
  by (cases xs; cases "tl xs") auto

text \<open>
  The two requests of the batch test: three references fail the batch and nothing is
  read; two references that can be read are read in order; when the second of two
  references cannot be read, the batch fails with the rejection of that read.
\<close>

theorem invokeBatch_count_check_witness:
  "exampleRequests \<noteq> [] \<and> \<not> dryRun exampleConfig \<and>
   invokeBatch posix (\<lambda>call. longerSession) exampleReadFile exampleConfig exampleRequests =
     (Inl (Error ''VS Code batch returned 3 responses for 2 requests''), []) \<and>
   (\<exists>responses.
      invokeBatch posix (\<lambda>call. alignedSession) exampleReadFile exampleConfig exampleRequests =
        (Inr responses, [''/tmp/res1.md'', ''/tmp/res2.md'']) \<and>
      map batchText responses = [''resp-one'', ''resp-two''] \<and>
      map (\<lambda>r. requestAttachments (batchRaw r)) responses =
        [Some [''/work/a.txt''], Some [''/work/b.txt'']]) \<and>
   invokeBatch posix (\<lambda>call. alignedSession) exampleBrokenReadFile exampleConfig exampleRequests =
     (Inl (Errno ''ENOENT'' ''no such file or directory''), [''/tmp/res1.md'', ''/tmp/res2.md''])"
proof -
  have ne: "exampleRequests \<noteq> []" by (simp add: exampleRequests_def)
  have wet: "\<not> dryRun exampleConfig" by (simp add: exampleConfig_def)
  have two: "length exampleRequests = 2" by (simp add: exampleRequests_def)
  note longer = invokeBatch_count_check [OF ne wet, of "\<lambda>call. longerSession" posix exampleReadFile,
      THEN conjunct1, rule_format, of "[''/tmp/res1.md'', ''/tmp/res2.md'', ''/tmp/res3.md'']"]
  have mismatch: "invokeBatch posix (\<lambda>call. longerSession) exampleReadFile exampleConfig exampleRequests =
     (Inl (Error ''VS Code batch returned 3 responses for 2 requests''), [])"
    using longer two example_mismatch_message by (simp add: longerSession_def)
  note aligned = invokeBatch_count_check [OF ne wet, of "\<lambda>call. alignedSession" posix exampleReadFile,
      THEN conjunct2, THEN conjunct1, rule_format,
      of "[''/tmp/res1.md'', ''/tmp/res2.md'']" "[''resp-one'', ''resp-two'']"]
  obtain responses where
    run: "invokeBatch posix (\<lambda>call. alignedSession) exampleReadFile exampleConfig exampleRequests =
        (Inr responses, [''/tmp/res1.md'', ''/tmp/res2.md''])"
    and len: "length responses = length exampleRequests"
    and each: "\<forall>i<length exampleRequests.
             batchText (responses ! i) = [''resp-one'', ''resp-two''] ! i \<and>
             responseFile (batchRaw (responses ! i)) = Some ([''/tmp/res1.md'', ''/tmp/res2.md''] ! i) \<and>
             requestAttachments (batchRaw (responses ! i)) =
               normalizeAttachments posix (attachments (exampleRequests ! i))"
    using aligned two by (auto simp: alignedSession_def exampleReadFile_def)
  have len2: "length responses = 2" using len two by simp
  have r0: "batchText (responses ! 0) = ''resp-one'' \<and>
            requestAttachments (batchRaw (responses ! 0)) = Some [''/work/a.txt'']"
    using each two example_normalized by simp
  have r1: "batchText (responses ! Suc 0) = ''resp-two'' \<and>
            requestAttachments (batchRaw (responses ! Suc 0)) = Some [''/work/b.txt'']"
    using each two example_normalized by simp
  have "map batchText responses = [''resp-one'', ''resp-two''] \<and>
        map (\<lambda>r. requestAttachments (batchRaw r)) responses =
          [Some [''/work/a.txt''], Some [''/work/b.txt'']]"
    using r0 r1 by (simp add: map_of_length_two [OF len2])
  with run have answered: "\<exists>responses.
      invokeBatch posix (\<lambda>call. alignedSession) exampleReadFile exampleConfig exampleRequests =
        (Inr responses, [''/tmp/res1.md'', ''/tmp/res2.md'']) \<and>
      map batchText responses = [''resp-one'', ''resp-two''] \<and>
      map (\<lambda>r. requestAttachments (batchRaw r)) responses =
        [Some [''/work/a.txt''], Some [''/work/b.txt'']]"
    by (intro exI [of _ responses] conjI) simp_all
  note broken = invokeBatch_count_check [OF ne wet, of "\<lambda>call. alignedSession" posix
      exampleBrokenReadFile, THEN conjunct2, THEN conjunct2, rule_format,
      of "[''/tmp/res1.md'']" "''/tmp/res2.md''" "[]" "[''resp-one'']"
         "Errno ''ENOENT'' ''no such file or directory''"]
  have rejected: "invokeBatch posix (\<lambda>call. alignedSession) exampleBrokenReadFile exampleConfig
       exampleRequests =
     (Inl (Errno ''ENOENT'' ''no such file or directory''), [''/tmp/res1.md'', ''/tmp/res2.md''])"
    using broken two by (simp add: alignedSession_def exampleBrokenReadFile_def)
  show ?thesis
    by (rule conjI [OF ne conjI [OF wet conjI [OF mismatch conjI [OF answered rejected]]]])
qed

text \<open>
  Claim C1 as the specification states it, for every session that returns as many
  references as there are requests, fails in two ways although the counts agree: on a
  session whose exit code is not 0 the batch fails and nothing is read; on a session
  whose second reference cannot be read the batch fails with the rejection of that
  read.
\<close>

theorem invokeBatch_failed_session_counterexample:
  "exampleRequests \<noteq> [] \<and> \<not> dryRun exampleConfig \<and>
   responseFiles failedSession = Some [''/tmp/res1.md'', ''/tmp/res2.md''] \<and>
   responseFiles alignedSession = Some [''/tmp/res1.md'', ''/tmp/res2.md''] \<and>
   length [''/tmp/res1.md'', ''/tmp/res2.md''] = length exampleRequests \<and>
   invokeBatch posix (\<lambda>call. failedSession) exampleReadFile exampleConfig exampleRequests =
     (Inl (Error ''VS Code subagent did not produce batch responses''), []) \<and>
   sessionExitCode alignedSession = 0 \<and>
   invokeBatch posix (\<lambda>call. alignedSession) exampleBrokenReadFile exampleConfig exampleRequests =
     (Inl (Errno ''ENOENT'' ''no such file or directory''), [''/tmp/res1.md'', ''/tmp/res2.md''])"
  by (simp add: invokeBatch_def exampleRequests_def exampleConfig_def failedSession_def
      alignedSession_def sessionFailure_def exampleBrokenReadFile_def)

text \<open>
  Three references for two requests in dry-run mode: two empty responses, nothing read.
\<close>

theorem invokeBatch_dry_run_witness:
  "dryRun exampleDryRunConfig \<and>
   sessionExitCode longerSession = 0 \<and> responseFiles longerSession \<noteq> None \<and>
   length (the (responseFiles longerSession)) \<noteq> length exampleRequests \<and>
   (\<exists>responses.
      invokeBatch posix (\<lambda>call. longerSession) exampleReadFile exampleDryRunConfig exampleRequests =
        (Inr responses, []) \<and>
      map batchText responses = [[], []] \<and>
      map (\<lambda>r. requestAttachments (batchRaw r)) responses =
        [Some [''/work/a.txt''], Some [''/work/b.txt'']])"
proof -
  have dry: "dryRun exampleDryRunConfig" by (simp add: exampleDryRunConfig_def exampleConfig_def)
  have two: "length exampleRequests = 2" by (simp add: exampleRequests_def)
  have ok: "exampleRequests = [] \<or>
      (sessionExitCode ((\<lambda>call. longerSession) (batchCall posix exampleDryRunConfig exampleRequests)) = 0 \<and>
       responseFiles ((\<lambda>call. longerSession) (batchCall posix exampleDryRunConfig exampleRequests)) \<noteq> None)"
    by (simp add: longerSession_def)
  obtain responses where
    run: "invokeBatch posix (\<lambda>call. longerSession) exampleReadFile exampleDryRunConfig exampleRequests =
        (Inr responses, [])"
    and len: "length responses = length exampleRequests"
    and each: "\<forall>i<length exampleRequests.
              batchText (responses ! i) = [] \<and>
              requestAttachments (batchRaw (responses ! i)) =
                normalizeAttachments posix (attachments (exampleRequests ! i))"
    using invokeBatch_dry_run [OF dry ok, where readFile = exampleReadFile] by blast
  have len2: "length responses = 2" using len two by simp
  have r0: "batchText (responses ! 0) = [] \<and>
            requestAttachments (batchRaw (responses ! 0)) = Some [''/work/a.txt'']"
    using each two example_normalized by simp
  have r1: "batchText (responses ! Suc 0) = [] \<and>
            requestAttachments (batchRaw (responses ! Suc 0)) = Some [''/work/b.txt'']"
    using each two example_normalized by simp
  have "map batchText responses = [[], []] \<and>
        map (\<lambda>r. requestAttachments (batchRaw r)) responses =
          [Some [''/work/a.txt''], Some [''/work/b.txt'']]"
    using r0 r1 by (simp add: map_of_length_two [OF len2])
  then show ?thesis using dry run two by (auto simp: longerSession_def)
qed

text \<open>
  Claim C10 as stated, for every session in dry-run mode, fails on a session whose exit
  code is not 0: the batch fails, here with three references for two requests.
\<close>

theorem invokeBatch_dry_run_failed_session_counterexample:
  "dryRun exampleDryRunConfig \<and>
   length (the (responseFiles failedLongerSession)) \<noteq> length exampleRequests \<and>
   invokeBatch posix (\<lambda>call. failedLongerSession) exampleReadFile exampleDryRunConfig exampleRequests =
     (Inl (Error ''VS Code subagent did not produce batch responses''), [])"
  by (simp add: invokeBatch_def exampleRequests_def exampleDryRunConfig_def exampleConfig_def
      failedLongerSession_def longerSession_def sessionFailure_def)

section \<open>Properties of the environment validator\<close>

lemma validateEnvironment_outcome:
  "fst (validateEnvironment P W config this) = spec_validation P W config"
  by (auto simp: validateEnvironment_def spec_validation_def ensureFileExists_def Let_def
           split: option.splits sum.splits)

lemma validateEnvironment_fields:
  "environmentCheck (snd (validateEnvironment P W config this)) = environmentCheck this \<and>
   validationRuns (snd (validateEnvironment P W config this)) = validationRuns this"
  by (auto simp: validateEnvironment_def Let_def split: option.splits sum.splits)

lemma ensure_first:
  assumes "environmentCheck this = None"
  shows "fst (ensureEnvironmentReady P W config this) = spec_validation P W config \<and>
         environmentCheck (snd (ensureEnvironmentReady P W config this)) =
           Some (spec_validation P W config) \<and>
         validationRuns (snd (ensureEnvironmentReady P W config this)) = validationRuns this + 1"
  using assms
  by (simp add: ensureEnvironmentReady_def Let_def validateEnvironment_outcome
      validateEnvironment_fields)

lemma ensure_stored:
  assumes "environmentCheck this = Some outcome"
  shows "ensureEnvironmentReady P W config this = (outcome, this)"
  using assms by (simp add: ensureEnvironmentReady_def)

lemma invoke_aborted:
  "\<not> entersInvoke request \<Longrightarrow>
   invoke P W run JP config this request = (Inl abortedBeforeExecution, this, [])"
  by (simp add: invoke_def entersInvoke_def)

lemma invoke_state:
  "entersInvoke request \<Longrightarrow>
   fst (snd (invoke P W run JP config this request)) = snd (ensureEnvironmentReady P W config this)"
  by (cases "ensureEnvironmentReady P W config this"; cases "fst (ensureEnvironmentReady P W config this)")
     (auto simp: invoke_def entersInvoke_def Let_def)

lemma invoke_not_ready:
  "entersInvoke request \<Longrightarrow> fst (ensureEnvironmentReady P W config this) = Inl e \<Longrightarrow>
   fst (invoke P W run JP config this request) = Inl e"
  by (cases "ensureEnvironmentReady P W config this") (auto simp: invoke_def entersInvoke_def)

lemma invoke_stored_state:
  assumes "environmentCheck this = Some outcome"
  shows "fst (snd (invoke P W run JP config this request)) = this"
proof (cases "entersInvoke request")
  case True
  then show ?thesis using assms by (simp add: invoke_state ensure_stored)
next
  case False
  then show ?thesis by (simp add: invoke_aborted)
qed

lemma invokeAll_stored_state:
  "environmentCheck this = Some outcome \<Longrightarrow> snd (invokeAll P run JP config this calls) = this"
  by (induction calls) (simp_all add: Let_def invoke_stored_state)

lemma invokeAll_stored_nth:
  "environmentCheck this = Some outcome \<Longrightarrow> j < length calls \<Longrightarrow>
   fst (invokeAll P run JP config this calls) ! j =
     fst (invoke P (fst (calls ! j)) run JP config this (snd (calls ! j)))"
proof (induction calls arbitrary: j)
  case Nil
  then show ?case by simp
next
  case (Cons c cs)
  then show ?case
    by (cases j) (simp_all add: Let_def invoke_stored_state)
qed

lemma invokeAll_append:
  "invokeAll P run JP config this (xs @ ys) =
     (fst (invokeAll P run JP config this xs) @
        fst (invokeAll P run JP config (snd (invokeAll P run JP config this xs)) ys),
      snd (invokeAll P run JP config (snd (invokeAll P run JP config this xs)) ys))"
  by (induction xs arbitrary: this) (simp_all add: Let_def)

lemma invokeAll_aborted:
  "\<forall>c \<in> set pre. \<not> entersInvoke (snd c) \<Longrightarrow>
   invokeAll P run JP config this pre = (replicate (length pre) (Inl abortedBeforeExecution), this)"
  by (induction pre) (simp_all add: Let_def invoke_aborted)

lemma invoke_memoConsistent:
  assumes "memoConsistent this"
  shows "memoConsistent (fst (snd (invoke P W run JP config this request)))"
proof (cases "entersInvoke request")
  case False
  then show ?thesis using assms by (simp add: invoke_aborted)
next
  case True
  show ?thesis
  proof (cases "environmentCheck this")
    case None
    then show ?thesis using assms True ensure_first [OF None, of P W config]
      by (simp add: invoke_state memoConsistent_def)
  next
    case (Some outcome)
    then show ?thesis using assms by (simp add: invoke_stored_state)
  qed
qed

lemma invokeAll_memoConsistent:
  "memoConsistent this \<Longrightarrow> memoConsistent (snd (invokeAll P run JP config this calls))"
  by (induction calls arbitrary: this) (simp_all add: Let_def invoke_memoConsistent)

lemma runs_at_most_once:
  "validationRuns (snd (invokeAll P run JP config newCodexProvider calls)) \<le> 1"
proof -
  have "memoConsistent newCodexProvider"
    by (simp add: memoConsistent_def newCodexProvider_def)
  then have "memoConsistent (snd (invokeAll P run JP config newCodexProvider calls))"
    by (rule invokeAll_memoConsistent)
  then show ?thesis by (auto simp: memoConsistent_def split: if_splits)
qed


lemma invokeAll_from_first:
  fixes P :: "'a platform_scheme" and W :: "'w world_scheme"
    and config :: "'c codexResolvedConfig_scheme"
  assumes aborted: "\<forall>c \<in> set pre. \<not> entersInvoke (snd c)"
    and enters: "entersInvoke request"
  defines "stored \<equiv> snd (ensureEnvironmentReady P W config newCodexProvider)"
  shows "invokeAll P run JP config newCodexProvider (pre @ (W, request) # post) =
           (replicate (length pre) (Inl abortedBeforeExecution) @
              fst (invoke P W run JP config newCodexProvider request) #
              fst (invokeAll P run JP config stored post),
            stored)"
    and "environmentCheck stored = Some (spec_validation P W config)"
    and "validationRuns stored = 1"
proof -
  have fresh: "environmentCheck newCodexProvider = None" "validationRuns newCodexProvider = 0"
    by (simp_all add: newCodexProvider_def)
  show check: "environmentCheck stored = Some (spec_validation P W config)"
    and "validationRuns stored = 1"
    using ensure_first [OF fresh(1), of P W config] fresh(2) by (simp_all add: stored_def)
  have after: "fst (snd (invoke P W run JP config newCodexProvider request)) = stored"
    using enters by (simp add: invoke_state stored_def)
  have rest: "snd (invokeAll P run JP config stored post) = stored"
    using check by (rule invokeAll_stored_state)
  show "invokeAll P run JP config newCodexProvider (pre @ (W, request) # post) =
           (replicate (length pre) (Inl abortedBeforeExecution) @
              fst (invoke P W run JP config newCodexProvider request) #
              fst (invokeAll P run JP config stored post),
            stored)"
    unfolding invokeAll_append invokeAll_aborted [OF aborted]
    by (simp add: Let_def after rest)
qed

text \<open>
  Claim C8, as the code has it. Over any sequence of \<^verbatim>\<open>invoke\<close> calls on a new
  provider instance, the environment validation runs at most once. The validation checks,
  in this order, that one of the two credential variables is present and not blank, that
  the configuration file exists, and that the executable resolves. The first call whose
  request is not already aborted runs it, in the surroundings of that call, and stores
  its outcome; every later call whose request is not already aborted takes the stored
  outcome without validating again, so after a failed validation each such call fails
  with the stored error, whatever its own surroundings. A call whose request is already
  aborted fails before the validation and neither runs nor reads it.
\<close>

theorem validation_memoized:
  "validationRuns (snd (invokeAll P run JP config newCodexProvider calls)) \<le> 1 \<and>
   (\<forall>W this. fst (validateEnvironment P W config this) = spec_validation P W config) \<and>
   (\<forall>pre W request post.
      calls = pre @ (W, request) # post \<and> (\<forall>c \<in> set pre. \<not> entersInvoke (snd c)) \<and>
      entersInvoke request \<longrightarrow>
        environmentCheck (snd (invokeAll P run JP config newCodexProvider calls)) =
          Some (spec_validation P W config) \<and>
        validationRuns (snd (invokeAll P run JP config newCodexProvider calls)) = 1 \<and>
        (\<forall>e. spec_validation P W config = Inl e \<longrightarrow>
           fst (invokeAll P run JP config newCodexProvider calls) ! length pre = Inl e \<and>
           (\<forall>j<length post. entersInvoke (snd (post ! j)) \<longrightarrow>
              fst (invokeAll P run JP config newCodexProvider calls) ! Suc (length pre + j) = Inl e)))"
proof (intro conjI allI impI)
  show "validationRuns (snd (invokeAll P run JP config newCodexProvider calls)) \<le> 1"
    by (rule runs_at_most_once)
next
  fix W this
  show "fst (validateEnvironment P W config this) = spec_validation P W config"
    by (rule validateEnvironment_outcome)
next
  fix pre W request post
  assume h: "calls = pre @ (W, request) # post \<and> (\<forall>c \<in> set pre. \<not> entersInvoke (snd c)) \<and>
      entersInvoke request"
  define stored where "stored = snd (ensureEnvironmentReady P W config newCodexProvider)"
  have aborted: "\<forall>c \<in> set pre. \<not> entersInvoke (snd c)" and enters: "entersInvoke request"
    using h by simp_all
  note first1 = invokeAll_from_first(1) [OF aborted enters, where P = P and W = W and config = config
      and run = run and JP = JP and post = post, folded stored_def]
  note first2 = invokeAll_from_first(2) [OF aborted enters, where P = P and W = W and config = config,
      folded stored_def]
  note first3 = invokeAll_from_first(3) [OF aborted enters, where P = P and W = W and config = config,
      folded stored_def]
  have run: "invokeAll P run JP config newCodexProvider calls =
           (replicate (length pre) (Inl abortedBeforeExecution) @
              fst (invoke P W run JP config newCodexProvider request) #
              fst (invokeAll P run JP config stored post),
            stored)"
    using first1 h by simp
  show "environmentCheck (snd (invokeAll P run JP config newCodexProvider calls)) =
          Some (spec_validation P W config)"
    unfolding run using first2 by simp
  show "validationRuns (snd (invokeAll P run JP config newCodexProvider calls)) = 1"
    unfolding run using first3 by simp
  fix e
  assume failed: "spec_validation P W config = Inl e"
  have fresh: "environmentCheck newCodexProvider = None"
    by (simp add: newCodexProvider_def)
  have "fst (invoke P W run JP config newCodexProvider request) = Inl e"
    using enters ensure_first [OF fresh, of P W config] failed
    by (simp add: invoke_not_ready)
  then show "fst (invokeAll P run JP config newCodexProvider calls) ! length pre = Inl e"
    unfolding run by (simp add: nth_append)
  fix j
  assume j: "j < length post" and later: "entersInvoke (snd (post ! j))"
  have cached: "environmentCheck stored = Some (Inl e)"
    using first2 failed by simp
  have "fst (invokeAll P run JP config stored post) ! j =
          fst (invoke P (fst (post ! j)) run JP config stored (snd (post ! j)))"
    using cached j by (rule invokeAll_stored_nth)
  also have "\<dots> = Inl e"
    using later cached by (simp add: invoke_not_ready ensure_stored)
  finally show "fst (invokeAll P run JP config newCodexProvider calls) ! Suc (length pre + j) = Inl e"
    unfolding run by (simp add: nth_append)
qed


lemma example_validations:
  "spec_validation posix bareWorld exampleCodexConfig = Inl missingCredentials \<and>
   spec_validation posix readyWorld exampleCodexConfig = Inr ()"
  by (simp add: spec_validation_def bareWorld_def readyWorld_def exampleCodexConfig_def
      resolveCodexConfigPath_def locateExecutable_def posix_def trim_examples)

text \<open>
  An aborted call, then a call without credentials, then a call in surroundings that
  would pass: the validation runs once and the third call fails with the stored error.
\<close>

theorem validation_memoized_witness:
  "spec_validation posix bareWorld exampleCodexConfig = Inl missingCredentials \<and>
   spec_validation posix readyWorld exampleCodexConfig = Inr () \<and>
   entersInvoke helloRequest \<and> \<not> entersInvoke abortedRequest \<and>
   validationRuns (snd (invokeAll posix exampleRunner exampleParse exampleCodexConfig newCodexProvider
      [(bareWorld, abortedRequest), (bareWorld, helloRequest), (readyWorld, helloRequest)])) = 1 \<and>
   environmentCheck (snd (invokeAll posix exampleRunner exampleParse exampleCodexConfig newCodexProvider
      [(bareWorld, abortedRequest), (bareWorld, helloRequest), (readyWorld, helloRequest)])) =
     Some (Inl missingCredentials) \<and>
   fst (invokeAll posix exampleRunner exampleParse exampleCodexConfig newCodexProvider
      [(bareWorld, abortedRequest), (bareWorld, helloRequest), (readyWorld, helloRequest)]) ! 1 =
     Inl missingCredentials \<and>
   fst (invokeAll posix exampleRunner exampleParse exampleCodexConfig newCodexProvider
      [(bareWorld, abortedRequest), (bareWorld, helloRequest), (readyWorld, helloRequest)]) ! 2 =
     Inl missingCredentials"
proof -
  let ?calls = "[(bareWorld, abortedRequest), (bareWorld, helloRequest), (readyWorld, helloRequest)]"
  have enters: "entersInvoke helloRequest" and aborted: "\<not> entersInvoke abortedRequest"
    by (simp_all add: entersInvoke_def helloRequest_def abortedRequest_def)
  have shape: "?calls = [(bareWorld, abortedRequest)] @ (bareWorld, helloRequest) # [(readyWorld, helloRequest)] \<and>
      (\<forall>c \<in> set [(bareWorld, abortedRequest)]. \<not> entersInvoke (snd c)) \<and> entersInvoke helloRequest"
    using enters aborted by simp
  note memo = validation_memoized [of posix exampleRunner exampleParse exampleCodexConfig ?calls,
      THEN conjunct2, THEN conjunct2, rule_format, OF shape]
  have failed: "spec_validation posix bareWorld exampleCodexConfig = Inl missingCredentials"
    using example_validations by simp
  have later: "entersInvoke (snd ([(readyWorld, helloRequest)] ! 0))" using enters by simp
  have "fst (invokeAll posix exampleRunner exampleParse exampleCodexConfig newCodexProvider ?calls) !
          Suc (length [(bareWorld, abortedRequest)] + 0) = Inl missingCredentials"
    using memo [THEN conjunct2, THEN conjunct2, rule_format, OF failed, THEN conjunct2, rule_format,
                of 0] later
    by simp
  then have third: "fst (invokeAll posix exampleRunner exampleParse exampleCodexConfig newCodexProvider ?calls) ! 2 =
          Inl missingCredentials"
    by (simp add: numeral_2_eq_2)
  have "fst (invokeAll posix exampleRunner exampleParse exampleCodexConfig newCodexProvider ?calls) !
          length [(bareWorld, abortedRequest)] = Inl missingCredentials"
    using memo [THEN conjunct2, THEN conjunct2, rule_format, OF failed, THEN conjunct1] .
  then have second: "fst (invokeAll posix exampleRunner exampleParse exampleCodexConfig newCodexProvider ?calls) ! 1 =
          Inl missingCredentials"
    by simp
  have runs: "validationRuns (snd (invokeAll posix exampleRunner exampleParse exampleCodexConfig
       newCodexProvider ?calls)) = 1"
    using memo [THEN conjunct2, THEN conjunct1] .
  have check: "environmentCheck (snd (invokeAll posix exampleRunner exampleParse exampleCodexConfig
       newCodexProvider ?calls)) = Some (Inl missingCredentials)"
    using memo [THEN conjunct1] failed by simp
  show ?thesis
    using example_validations enters aborted runs check second third by blast
qed

text \<open>
  Claim C8 as the specification states it, for the first and for every subsequent call,
  fails on a call whose request is already aborted: as the first call it stores no
  outcome, and after a failed validation it fails with the abort error, not with the
  stored one.
\<close>

theorem validation_memoized_aborted_counterexample:
  "environmentCheck (fst (snd (invoke posix bareWorld exampleRunner exampleParse exampleCodexConfig
       newCodexProvider abortedRequest))) = None \<and>
   validationRuns (fst (snd (invoke posix bareWorld exampleRunner exampleParse exampleCodexConfig
       newCodexProvider abortedRequest))) = 0 \<and>
   fst (invokeAll posix exampleRunner exampleParse exampleCodexConfig newCodexProvider
      [(bareWorld, helloRequest), (bareWorld, abortedRequest)]) =
     [Inl missingCredentials, Inl abortedBeforeExecution] \<and>
   abortedBeforeExecution \<noteq> missingCredentials"
  by (simp add: invoke_def ensureEnvironmentReady_def validateEnvironment_def newCodexProvider_def
      bareWorld_def helloRequest_def abortedRequest_def Let_def
      abortedBeforeExecution_def missingCredentials_def)

section \<open>Properties of the process runner\<close>

lemma runner_snoc:
  "defaultCodexRunner options (events @ [ev]) = runnerStep (defaultCodexRunner options events) ev"
  by (simp add: defaultCodexRunner_def)

lemma runner_append:
  "defaultCodexRunner options (pre @ post) = foldl runnerStep (defaultCodexRunner options pre) post"
  by (simp add: defaultCodexRunner_def)

lemma running_snoc: "running (events @ [ev]) = (running events \<and> \<not> endsRun ev)"
  by (simp add: running_def)

lemma startRunner_running: "runningState options [] (startRunner options)"
  by (auto simp: runningState_def startRunner_def timerConfigured_def timerFired_def cancelled_def
      onAbort_def childKill_def Let_def split: option.splits)

lemma runnerStep_running:
  assumes "runningState options events st" and "\<not> endsRun ev"
  shows "runningState options (events @ [ev]) (runnerStep st ev)"
  using assms
  by (cases ev)
     (auto simp: runningState_def runnerStep_def onAbort_def onTimeout_def childKill_def
        timerFired_def cancelled_def Let_def)

lemma runner_running:
  "running events \<Longrightarrow> runningState options events (defaultCodexRunner options events)"
proof (induction events rule: rev_induct)
  case Nil
  then show ?case by (simp add: defaultCodexRunner_def startRunner_running)
next
  case (snoc ev events)
  then show ?case by (simp add: runner_snoc running_snoc runnerStep_running)
qed



lemma uncaught_stays:
  "uncaught st = Some e \<Longrightarrow> foldl runnerStep st events = st"
  by (induction events) (simp_all add: runnerStep_def)







text \<open>An error of the child's stdin that comes first is thrown uncaught: the promise
  never settles, also when the child closes afterwards.\<close>

lemma runner_uncaught_stdin_error:
  assumes "running pre"
  shows "settled (defaultCodexRunner options (pre @ StdinError e # post)) = None \<and>
         uncaught (defaultCodexRunner options (pre @ StdinError e # post)) = Some e"
proof -
  have st: "runningState options pre (defaultCodexRunner options pre)"
    using assms by (rule runner_running)
  let ?crashed = "runnerStep (defaultCodexRunner options pre) (StdinError e)"
  have "uncaught ?crashed = Some e" and "settled ?crashed = None"
    using st by (simp_all add: runningState_def runnerStep_def)
  moreover have "defaultCodexRunner options (pre @ StdinError e # post) = ?crashed"
    using \<open>uncaught ?crashed = Some e\<close> by (simp add: runner_append uncaught_stays)
  ultimately show ?thesis by simp
qed








end
